theory Spec2Isabelle
  imports Main
begin

section \<open>Plan pricing (src/services/planService.ts)\<close>

text \<open>
  Amounts and quantities are JavaScript numbers in the source. The model takes them to be
  integers (the minor currency unit, whole quantities), so \<open>int\<close> stands for \<open>number\<close>;
  fractions, NaN and the infinities are outside the model.
\<close>

datatype error =
    ValidationError string
  | NotFoundError string
  | ConflictError string
  | TypeError string
  | DatabaseError string

datatype BillingInterval = Day | Week | Month | Year

datatype PricingModel = Flat | PerUnit | Tiered | Volume

datatype TierMode = Graduated | VolumeMode

datatype PlanStatus = PlanActive | PlanArchived | PlanDraft

text \<open>\<open>interface PriceTier\<close>: \<open>up_to = None\<close> is the source's \<open>null\<close> (infinity), a missing
  \<open>flat_amount\<close> is \<open>None\<close>. The tier's \<open>unit_amount\<close> is the field \<open>tier_unit_amount\<close>.\<close>

record PriceTier =
  up_to :: "int option"
  tier_unit_amount :: int
  flat_amount :: "int option"

text \<open>\<open>interface PlanPrice\<close>: \<open>tiers = None\<close> is the source's missing \<open>tiers\<close>.\<close>

record PlanPrice =
  pp_id :: string
  pp_currency :: string
  unit_amount :: int
  pricing_model :: PricingModel
  tiers :: "PriceTier list option"
  tier_mode :: "TierMode option"

text \<open>\<open>if (tier.flat_amount) total += tier.flat_amount\<close>: a missing or zero amount is falsy.\<close>

definition add_flat_amount :: "PriceTier \<Rightarrow> int \<Rightarrow> int" where
  "add_flat_amount tier tot =
     (case flat_amount tier of
        None \<Rightarrow> tot
      | Some f \<Rightarrow> if f \<noteq> 0 then tot + f else tot)"

text \<open>The loop of the \<open>tiered\<close> branch of \<open>calculatePrice\<close>, with its two variables
  \<open>total\<close> (here \<open>tot\<close>) and \<open>remaining\<close>; \<open>break\<close> leaves the loop.\<close>

fun tiered_loop :: "int \<Rightarrow> int \<Rightarrow> PriceTier list \<Rightarrow> int" where
  "tiered_loop tot remaining [] = tot"
| "tiered_loop tot remaining (tier # rest) =
     (let tierLimit = (case up_to tier of None \<Rightarrow> remaining | Some u \<Rightarrow> u);
          unitsInTier = min remaining tierLimit;
          total1 = add_flat_amount tier (tot + unitsInTier * tier_unit_amount tier);
          remaining1 = remaining - unitsInTier
      in if remaining1 \<le> 0 then total1 else tiered_loop total1 remaining1 rest)"

text \<open>The loop of the \<open>volume\<close> branch: the first tier that holds the whole quantity prices
  it; \<open>None\<close> when the loop ends without a \<open>return\<close>.\<close>

fun volume_loop :: "int \<Rightarrow> PriceTier list \<Rightarrow> int option" where
  "volume_loop quantity [] = None"
| "volume_loop quantity (tier # rest) =
     (if up_to tier = None \<or> quantity \<le> the (up_to tier)
      then Some (add_flat_amount tier (quantity * tier_unit_amount tier))
      else volume_loop quantity rest)"

definition calculatePrice :: "PlanPrice \<Rightarrow> int \<Rightarrow> int" where
  "calculatePrice price quantity =
     (if pricing_model price = Flat then unit_amount price
      else if pricing_model price = PerUnit then unit_amount price * quantity
      else if pricing_model price = Tiered \<and> tiers price \<noteq> None
        then tiered_loop 0 quantity (the (tiers price))
      else if pricing_model price = Volume \<and> tiers price \<noteq> None
        then (case volume_loop quantity (the (tiers price)) of
                Some tot \<Rightarrow> tot
              | None \<Rightarrow> unit_amount price * quantity)
      else unit_amount price * quantity)"

subsection \<open>Plan-creation validation\<close>

text \<open>\<open>String.prototype.toUpperCase\<close> and \<open>trim\<close> on the ASCII range (a \<open>string\<close> is a list
  of bytes): the currency codes and names the source compares are ASCII.\<close>

definition toUpperCase :: "string \<Rightarrow> string" where
  "toUpperCase s =
     map (\<lambda>c. if 97 \<le> (of_char c :: nat) \<and> (of_char c :: nat) \<le> 122
              then char_of ((of_char c :: nat) - 32) else c) s"

definition is_whitespace :: "char \<Rightarrow> bool" where
  "is_whitespace c = ((of_char c :: nat) \<in> {9, 10, 11, 12, 13, 32})"

definition trim :: "string \<Rightarrow> string" where
  "trim s = rev (dropWhile is_whitespace (rev (dropWhile is_whitespace s)))"

definition SUPPORTED_CURRENCIES :: "string list" where
  "SUPPORTED_CURRENCIES =
     [''NGN'', ''USD'', ''GBP'', ''EUR'', ''KES'', ''GHS'', ''ZAR'', ''XOF'', ''XAF'', ''EGP'', ''TZS'']"

text \<open>One entry of \<open>CreatePlanInput.prices\<close>, and \<open>CreatePlanInput\<close> itself without the
  fields validation does not read (description, features, metadata). A missing optional
  field is \<open>None\<close>. The interval, the pricing model and the status are values of their
  TypeScript types, so the three \<open>includes\<close> checks of the source always pass here.\<close>

record PriceInput =
  in_currency :: string
  in_unit_amount :: int
  in_pricing_model :: "PricingModel option"
  in_tiers :: "PriceTier list option"
  in_tier_mode :: "TierMode option"

record CreatePlanInput =
  in_external_id :: "string option"
  in_name :: string
  in_billing_interval :: BillingInterval
  in_billing_interval_count :: "int option"
  in_prices :: "PriceInput list"
  in_trial_period_days :: "int option"
  in_status :: "PlanStatus option"

text \<open>\<open>validateTiers\<close>: the loop with its variable \<open>lastUpTo\<close>; \<open>i !== tiers.length - 1\<close>
  says that tiers follow.\<close>

fun validateTiers_loop :: "int \<Rightarrow> PriceTier list \<Rightarrow> error + unit" where
  "validateTiers_loop lastUpTo [] = Inr ()"
| "validateTiers_loop lastUpTo (tier # rest) =
     (if tier_unit_amount tier < 0
      then Inl (ValidationError ''Tier: unit_amount must be non-negative'')
      else (case up_to tier of
              Some u \<Rightarrow>
                if u \<le> lastUpTo
                then Inl (ValidationError ''Tier: up_to must be greater than previous tier'')
                else validateTiers_loop u rest
            | None \<Rightarrow>
                if rest \<noteq> []
                then Inl (ValidationError ''Only the last tier can have up_to = null (infinity)'')
                else validateTiers_loop lastUpTo rest))"

definition validateTiers :: "PriceTier list \<Rightarrow> error + unit" where
  "validateTiers ts = validateTiers_loop 0 ts"

text \<open>The body of \<open>for (const price of input.prices)\<close> in \<open>validatePlanInput\<close>.\<close>

definition validatePrice :: "PriceInput \<Rightarrow> error + unit" where
  "validatePrice price =
     (if in_currency price = [] \<or> toUpperCase (in_currency price) \<notin> set SUPPORTED_CURRENCIES
      then Inl (ValidationError ''Invalid currency'')
      else if in_unit_amount price < 0
      then Inl (ValidationError ''unit_amount must be a non-negative number'')
      else if in_pricing_model price = Some Tiered \<or> in_pricing_model price = Some Volume
      then (case in_tiers price of
              None \<Rightarrow> Inl (ValidationError ''Tiers are required for tiered/volume pricing'')
            | Some ts \<Rightarrow>
                if ts = []
                then Inl (ValidationError ''Tiers are required for tiered/volume pricing'')
                else validateTiers ts)
      else Inr ())"

fun validatePrices :: "PriceInput list \<Rightarrow> error + unit" where
  "validatePrices [] = Inr ()"
| "validatePrices (price # rest) =
     (case validatePrice price of Inl e \<Rightarrow> Inl e | Inr _ \<Rightarrow> validatePrices rest)"

definition validatePlanInput :: "CreatePlanInput \<Rightarrow> error + unit" where
  "validatePlanInput input =
     (if in_name input = [] \<or> length (trim (in_name input)) = 0
      then Inl (ValidationError ''Plan name is required'')
      else if in_billing_interval_count input \<noteq> None \<and> the (in_billing_interval_count input) < 1
      then Inl (ValidationError ''billing_interval_count must be at least 1'')
      else if in_prices input = []
      then Inl (ValidationError ''At least one price is required'')
      else (case validatePrices (in_prices input) of
              Inl e \<Rightarrow> Inl e
            | Inr _ \<Rightarrow>
                if in_trial_period_days input \<noteq> None \<and> the (in_trial_period_days input) < 0
                then Inl (ValidationError ''trial_period_days must be non-negative'')
                else Inr ()))"

text \<open>The price that \<open>create\<close> of planService.ts stores for a validated input price
  (the \<open>input.prices.map\<close> of \<open>create\<close>); \<open>uuid\<close> is the value \<open>uuidv4()\<close> returned.\<close>

definition storedPrice :: "string \<Rightarrow> PriceInput \<Rightarrow> PlanPrice" where
  "storedPrice uuid p =
     \<lparr> pp_id = uuid,
       pp_currency = toUpperCase (in_currency p),
       unit_amount = in_unit_amount p,
       pricing_model = (case in_pricing_model p of None \<Rightarrow> Flat | Some m \<Rightarrow> m),
       tiers = in_tiers p,
       tier_mode = in_tier_mode p \<rparr>"

subsection \<open>The graduated charge as the specification words it\<close>

text \<open>Written from the specification, not from the code, for comparison with
  \<open>tiered_loop\<close>: each tier consumes up to \<open>tier.up_to - previous_up_to\<close> units, the terminal
  tier without a bound all remaining units, at the tier's unit price, plus the tier's flat
  surcharge if any units fell in that tier; the walk stops once the quantity is exhausted.\<close>

fun spec_graduated :: "int \<Rightarrow> int \<Rightarrow> PriceTier list \<Rightarrow> int" where
  "spec_graduated previous_up_to remaining [] = 0"
| "spec_graduated previous_up_to remaining (tier # rest) =
     (if remaining \<le> 0 then 0
      else
        (let units = (case up_to tier of
                        None \<Rightarrow> remaining
                      | Some u \<Rightarrow> min remaining (u - previous_up_to));
             surcharge = (case flat_amount tier of
                            None \<Rightarrow> 0
                          | Some f \<Rightarrow> if units > 0 then f else 0);
             bound = (case up_to tier of None \<Rightarrow> previous_up_to | Some u \<Rightarrow> u)
         in units * tier_unit_amount tier + surcharge
            + spec_graduated bound (remaining - units) rest))"

section \<open>Instants and calendar arithmetic\<close>

text \<open>
  A JavaScript \<open>Date\<close> and a PostgreSQL \<open>timestamptz\<close> are modelled by their time value:
  the milliseconds since 1970-01-01T00:00:00Z, an \<open>int\<close>. The functions below are the
  abstract operations of ECMA-262 (section "Date objects") under their names there; \<open>Day(t)\<close>
  is \<open>DayNumber\<close> here. Every \<open>Date\<close> is a valid one.

  The local time zone is a parameter, ECMA-262's \<open>LocalTZA(t, isUTC)\<close>: \<open>tza t True\<close> is
  the offset of local time from UTC, in milliseconds, at the instant \<open>t\<close>, and
  \<open>tza t False\<close> is the offset in force at the local time \<open>t\<close>. In a zone with daylight
  saving the offset depends on \<open>t\<close>.
\<close>

type_synonym zone = "int \<Rightarrow> bool \<Rightarrow> int"

definition utc_zone :: zone where
  "utc_zone t isUTC = 0"

definition msPerDay :: int where
  "msPerDay = 86400000"

definition DayNumber :: "int \<Rightarrow> int" where
  "DayNumber t = t div msPerDay"

definition TimeWithinDay :: "int \<Rightarrow> int" where
  "TimeWithinDay t = t mod msPerDay"

definition DaysInYear :: "int \<Rightarrow> int" where
  "DaysInYear y =
     (if y mod 4 \<noteq> 0 then 365
      else if y mod 100 \<noteq> 0 then 366
      else if y mod 400 \<noteq> 0 then 365
      else 366)"

definition DayFromYear :: "int \<Rightarrow> int" where
  "DayFromYear y =
     365 * (y - 1970) + (y - 1969) div 4 - (y - 1901) div 100 + (y - 1601) div 400"

text \<open>\<open>YearFromTime(t)\<close> is the largest \<open>y\<close> with \<open>DayFromYear y \<le> Day(t)\<close>. A year has
  365.2425 days on average, which places that year within one of the estimate \<open>y0\<close>
  (lemma \<open>YearFromTime_bounds\<close> below).\<close>

definition YearFromTime :: "int \<Rightarrow> int" where
  "YearFromTime t =
     (let d = DayNumber t;
          y0 = 1970 + (400 * d) div 146097
      in if DayFromYear (y0 + 1) \<le> d then y0 + 1
         else if DayFromYear y0 \<le> d then y0
         else y0 - 1)"

definition InLeapYear :: "int \<Rightarrow> int" where
  "InLeapYear t = (if DaysInYear (YearFromTime t) = 366 then 1 else 0)"

definition DayWithinYear :: "int \<Rightarrow> int" where
  "DayWithinYear t = DayNumber t - DayFromYear (YearFromTime t)"

text \<open>The day within the year on which month \<open>m\<close> (0 = January) begins, \<open>leap\<close> being 1 in
  a leap year and 0 otherwise: the bounds of ECMA-262's table for \<open>MonthFromTime\<close>.\<close>

definition monthStart :: "int \<Rightarrow> int \<Rightarrow> int" where
  "monthStart leap m =
     (if m = 0 then 0
      else if m = 1 then 31
      else if m = 2 then 59 + leap
      else if m = 3 then 90 + leap
      else if m = 4 then 120 + leap
      else if m = 5 then 151 + leap
      else if m = 6 then 181 + leap
      else if m = 7 then 212 + leap
      else if m = 8 then 243 + leap
      else if m = 9 then 273 + leap
      else if m = 10 then 304 + leap
      else if m = 11 then 334 + leap
      else 365 + leap)"

definition MonthFromTime :: "int \<Rightarrow> int" where
  "MonthFromTime t =
     (let d = DayWithinYear t; leap = InLeapYear t
      in if d < monthStart leap 1 then 0
         else if d < monthStart leap 2 then 1
         else if d < monthStart leap 3 then 2
         else if d < monthStart leap 4 then 3
         else if d < monthStart leap 5 then 4
         else if d < monthStart leap 6 then 5
         else if d < monthStart leap 7 then 6
         else if d < monthStart leap 8 then 7
         else if d < monthStart leap 9 then 8
         else if d < monthStart leap 10 then 9
         else if d < monthStart leap 11 then 10
         else 11)"

definition DateFromTime :: "int \<Rightarrow> int" where
  "DateFromTime t = DayWithinYear t - monthStart (InLeapYear t) (MonthFromTime t) + 1"

text \<open>\<open>MakeDay(year, month, date)\<close>: the month may lie outside 0..11 and the date outside the
  month; both carry over, which is how \<open>setMonth\<close> and \<open>setDate\<close> overflow.\<close>

definition MakeDay :: "int \<Rightarrow> int \<Rightarrow> int \<Rightarrow> int" where
  "MakeDay year month date =
     (let ym = year + month div 12;
          mn = month mod 12;
          leap = (if DaysInYear ym = 366 then 1 else 0)
      in DayFromYear ym + monthStart leap mn + date - 1)"

definition MakeDate :: "int \<Rightarrow> int \<Rightarrow> int" where
  "MakeDate day time = day * msPerDay + time"

definition LocalTime :: "zone \<Rightarrow> int \<Rightarrow> int" where
  "LocalTime tza t = t + tza t True"

definition UTC :: "zone \<Rightarrow> int \<Rightarrow> int" where
  "UTC tza t = t - tza t False"

text \<open>\<open>Date.prototype.getDate\<close>, \<open>getMonth\<close>, \<open>getFullYear\<close>, \<open>setDate\<close>, \<open>setMonth\<close>,
  \<open>setFullYear\<close>; a setter returns the new time value of the date it mutates.\<close>

definition getDate :: "zone \<Rightarrow> int \<Rightarrow> int" where
  "getDate tza t = DateFromTime (LocalTime tza t)"

definition getMonth :: "zone \<Rightarrow> int \<Rightarrow> int" where
  "getMonth tza t = MonthFromTime (LocalTime tza t)"

definition getFullYear :: "zone \<Rightarrow> int \<Rightarrow> int" where
  "getFullYear tza t = YearFromTime (LocalTime tza t)"

definition setDate :: "zone \<Rightarrow> int \<Rightarrow> int \<Rightarrow> int" where
  "setDate tza t dt =
     (let lt = LocalTime tza t
      in UTC tza (MakeDate (MakeDay (YearFromTime lt) (MonthFromTime lt) dt) (TimeWithinDay lt)))"

definition setMonth :: "zone \<Rightarrow> int \<Rightarrow> int \<Rightarrow> int" where
  "setMonth tza t m =
     (let lt = LocalTime tza t
      in UTC tza (MakeDate (MakeDay (YearFromTime lt) m (DateFromTime lt)) (TimeWithinDay lt)))"

definition setFullYear :: "zone \<Rightarrow> int \<Rightarrow> int \<Rightarrow> int" where
  "setFullYear tza t y =
     (let lt = LocalTime tza t
      in UTC tza (MakeDate (MakeDay y (MonthFromTime lt) (DateFromTime lt)) (TimeWithinDay lt)))"

text \<open>\<open>calculatePeriodEnd\<close> of subscriptionService.ts: \<open>end\<close> is a copy of \<open>start\<close>, moved by
  the setter of the interval.\<close>

definition calculatePeriodEnd :: "zone \<Rightarrow> int \<Rightarrow> BillingInterval \<Rightarrow> int \<Rightarrow> int" where
  "calculatePeriodEnd tza start interval intervalCount =
     (case interval of
        Day \<Rightarrow> setDate tza start (getDate tza start + intervalCount)
      | Week \<Rightarrow> setDate tza start (getDate tza start + 7 * intervalCount)
      | Month \<Rightarrow> setMonth tza start (getMonth tza start + intervalCount)
      | Year \<Rightarrow> setFullYear tza start (getFullYear tza start + intervalCount))"

text \<open>PostgreSQL's \<open>timestamptz + interval\<close> for an interval of \<open>months\<close> months and \<open>days\<close>
  days, in the session time zone \<open>tza\<close>: the months are added to the local calendar date
  and the day of the month is cut back to the last day of the month reached; then the days
  are added. \<open>interval '1 year'\<close> is twelve months, \<open>interval '1 week'\<close> seven days. (The
  intervals of \<open>activateTrialEnding\<close> have months only or days only, so the local time is
  turned back into an instant once.)\<close>

definition daysInMonth :: "int \<Rightarrow> int \<Rightarrow> int" where
  "daysInMonth y m =
     (let leap = (if DaysInYear y = 366 then 1 else 0)
      in monthStart leap (m + 1) - monthStart leap m)"

definition timestamptz_pl_interval :: "zone \<Rightarrow> int \<Rightarrow> int \<Rightarrow> int \<Rightarrow> int" where
  "timestamptz_pl_interval tza t months days =
     (let lt = LocalTime tza t;
          total_months = YearFromTime lt * 12 + MonthFromTime lt + months;
          y = total_months div 12;
          m = total_months mod 12;
          d = min (DateFromTime lt) (daysInMonth y m);
          moved = (if months = 0 then lt else MakeDate (MakeDay y m d) (TimeWithinDay lt))
      in UTC tza (moved + days * msPerDay))"

section \<open>Subscriptions (subscriptionService.ts)\<close>

datatype SubscriptionStatus =
  Trialing | Active | PastDue | Paused | Canceled | Unpaid | Incomplete

datatype CancellationReason =
  CustomerRequest | PaymentFailure | PlanChange | Fraud | Other

record SubscriptionItem =
  item_id :: string
  plan_id :: string
  price_id :: string
  quantity :: int

text \<open>\<open>interface Subscription\<close>, which is also a row of the table \<open>subscriptions\<close>
  (\<open>formatSubscription\<close> copies the row field by field). \<open>sub_id\<close> is the field \<open>id\<close>;
  \<open>null\<close> is \<open>None\<close>; \<open>metadata\<close> is the JSON text.\<close>

record Subscription =
  sub_id :: string
  application_id :: string
  customer_id :: string
  external_id :: "string option"
  status :: SubscriptionStatus
  items :: "SubscriptionItem list"
  currency :: string
  current_period_start :: int
  current_period_end :: int
  trial_start :: "int option"
  trial_end :: "int option"
  cancel_at :: "int option"
  canceled_at :: "int option"
  cancellation_reason :: "CancellationReason option"
  cancel_at_period_end :: bool
  pause_start :: "int option"
  pause_end :: "int option"
  billing_cycle_anchor :: int
  metadata :: string
  test_mode :: bool
  created_at :: int
  updated_at :: int

text \<open>\<open>interface Plan\<close> of planService.ts, a row of the table \<open>plans\<close>, without the fields
  the subscription service does not read (name, description, features, metadata, the
  time stamps).\<close>

record Plan =
  pl_id :: string
  pl_application_id :: string
  billing_interval :: BillingInterval
  billing_interval_count :: int
  prices :: "PlanPrice list"
  trial_period_days :: int
  pl_status :: PlanStatus
  pl_test_mode :: bool

text \<open>A row of the table \<open>customers\<close>, as far as \<open>customerService.getById\<close> reads it.\<close>

record Customer =
  cust_id :: string
  cust_application_id :: string
  cust_test_mode :: bool
  deleted_at :: "int option"

text \<open>The store: the three tables, each a list of rows.\<close>

record database =
  subscriptions :: "Subscription list"
  plans :: "Plan list"
  customers :: "Customer list"

text \<open>What one call reads from its surroundings: the clock of the process (\<open>new Date()\<close>),
  the clock of the database (\<open>NOW()\<close>), the values \<open>uuidv4()\<close> returns (at most two calls
  in one operation), and the time zones of the process and of the database session.\<close>

record env =
  js_now :: int
  sql_now :: int
  uuid_first :: string
  uuid_second :: string
  js_tza :: zone
  pg_tza :: zone

record CreateSubscriptionInput =
  c_customer_id :: string
  c_plan_id :: string
  c_external_id :: "string option"
  c_currency :: "string option"
  c_quantity :: "int option"
  c_trial_period_days :: "int option"
  c_trial_end :: "int option"
  c_billing_cycle_anchor :: "int option"
  c_metadata :: "string option"

record UpdateSubscriptionInput =
  u_external_id :: "string option"
  u_quantity :: "int option"
  u_metadata :: "string option"

record ListSubscriptionsParams =
  l_application_id :: string
  l_test_mode :: bool
  l_customer_id :: "string option"
  l_plan_id :: "string option"
  l_status :: "SubscriptionStatus option"
  l_limit :: "int option"
  l_starting_after :: "string option"

record ListSubscriptionsResult =
  data :: "Subscription list"
  has_more :: bool

text \<open>An optional string is truthy when it is present and not empty.\<close>

definition truthy :: "string option \<Rightarrow> bool" where
  "truthy s = (s \<noteq> None \<and> s \<noteq> Some [])"

subsection \<open>Reads\<close>

text \<open>\<open>customerService.getById\<close> and \<open>planService.getById\<close>: the first row the query
  returns, \<open>NotFoundError\<close> when it returns none.\<close>

definition customer_getById ::
  "database \<Rightarrow> string \<Rightarrow> string \<Rightarrow> bool \<Rightarrow> bool \<Rightarrow> error + Customer" where
  "customer_getById db applicationId customerId testMode includeDeleted =
     (case find (\<lambda>c. cust_id c = customerId \<and> cust_application_id c = applicationId
                     \<and> cust_test_mode c = testMode
                     \<and> (includeDeleted \<or> deleted_at c = None)) (customers db) of
        None \<Rightarrow> Inl (NotFoundError ''Customer not found'')
      | Some c \<Rightarrow> Inr c)"

definition plan_getById ::
  "database \<Rightarrow> string \<Rightarrow> string \<Rightarrow> bool \<Rightarrow> bool \<Rightarrow> error + Plan" where
  "plan_getById db applicationId planId testMode includeArchived =
     (case find (\<lambda>p. pl_id p = planId \<and> pl_application_id p = applicationId
                     \<and> pl_test_mode p = testMode
                     \<and> (includeArchived \<or> pl_status p \<noteq> PlanArchived)) (plans db) of
        None \<Rightarrow> Inl (NotFoundError ''Plan not found'')
      | Some p \<Rightarrow> Inr p)"

definition getPriceForCurrency :: "Plan \<Rightarrow> string \<Rightarrow> PlanPrice option" where
  "getPriceForCurrency plan cur = find (\<lambda>p. pp_currency p = toUpperCase cur) (prices plan)"

text \<open>The condition \<open>WHERE id = $1 AND application_id = $2 AND test_mode = $3\<close> that
  \<open>getById\<close> and every \<open>UPDATE\<close> of the lifecycle operations use.\<close>

definition scoped_id :: "string \<Rightarrow> string \<Rightarrow> bool \<Rightarrow> Subscription \<Rightarrow> bool" where
  "scoped_id subscriptionId applicationId testMode s =
     (sub_id s = subscriptionId \<and> application_id s = applicationId \<and> test_mode s = testMode)"

definition getById :: "database \<Rightarrow> string \<Rightarrow> string \<Rightarrow> bool \<Rightarrow> error + Subscription" where
  "getById db applicationId subscriptionId testMode =
     (case find (scoped_id subscriptionId applicationId testMode) (subscriptions db) of
        None \<Rightarrow> Inl (NotFoundError ''Subscription not found'')
      | Some s \<Rightarrow> Inr s)"

definition getByExternalId :: "database \<Rightarrow> string \<Rightarrow> string \<Rightarrow> bool \<Rightarrow> error + Subscription" where
  "getByExternalId db applicationId externalId testMode =
     (case find (\<lambda>s. external_id s = Some externalId \<and> application_id s = applicationId
                     \<and> test_mode s = testMode) (subscriptions db) of
        None \<Rightarrow> Inl (NotFoundError ''Subscription not found'')
      | Some s \<Rightarrow> Inr s)"

subsection \<open>Writes\<close>

text \<open>\<open>UPDATE subscriptions SET ... WHERE cond RETURNING *\<close>: every row that satisfies the
  condition is replaced; the statement returns the replaced rows. \<open>result.rows[0]\<close> of a
  statement that returned no row is \<open>undefined\<close>, and \<open>formatSubscription\<close> then throws a
  TypeError.\<close>

definition sql_update ::
  "(Subscription \<Rightarrow> bool) \<Rightarrow> (Subscription \<Rightarrow> Subscription) \<Rightarrow> database \<Rightarrow> database" where
  "sql_update cond upd db =
     db\<lparr>subscriptions := map (\<lambda>s. if cond s then upd s else s) (subscriptions db)\<rparr>"

definition sql_returning ::
  "(Subscription \<Rightarrow> bool) \<Rightarrow> (Subscription \<Rightarrow> Subscription) \<Rightarrow> database \<Rightarrow> Subscription list" where
  "sql_returning cond upd db = map upd (filter cond (subscriptions db))"

definition first_row :: "Subscription list \<Rightarrow> error + Subscription" where
  "first_row rows =
     (case rows of
        [] \<Rightarrow> Inl (TypeError ''Cannot read properties of undefined'')
      | r # _ \<Rightarrow> Inr r)"

definition update_returning ::
  "(Subscription \<Rightarrow> bool) \<Rightarrow> (Subscription \<Rightarrow> Subscription) \<Rightarrow> database
     \<Rightarrow> (error + Subscription) \<times> database" where
  "update_returning cond upd db = (first_row (sql_returning cond upd db), sql_update cond upd db)"

subsection \<open>create\<close>

text \<open>The trial handling of \<open>create\<close>: the values of \<open>trialStart\<close>, \<open>trialEnd\<close>,
  \<open>periodStart\<close> and \<open>status\<close> after the \<open>if\<close>, or the error it throws.\<close>

definition trial_window ::
  "env \<Rightarrow> CreateSubscriptionInput \<Rightarrow> Plan
     \<Rightarrow> error + (int option \<times> int option \<times> int \<times> SubscriptionStatus)" where
  "trial_window e input plan =
     (let now = js_now e;
          trialDays = (case c_trial_period_days input of
                         Some d \<Rightarrow> d
                       | None \<Rightarrow> trial_period_days plan)
      in case c_trial_end input of
           Some te \<Rightarrow>
             if te \<le> now then Inl (ValidationError ''trial_end must be in the future'')
             else Inr (Some now, Some te, te, Trialing)
         | None \<Rightarrow>
             if trialDays > 0
             then (let trialEnd = setDate (js_tza e) now (getDate (js_tza e) now + trialDays)
                   in Inr (Some now, Some trialEnd, trialEnd, Trialing))
             else Inr (None, None, now, Active))"

text \<open>The row that \<open>INSERT INTO subscriptions\<close> of \<open>create\<close> writes; the columns the
  statement does not name take their default \<open>NULL\<close>.\<close>

definition new_subscription ::
  "env \<Rightarrow> string \<Rightarrow> bool \<Rightarrow> CreateSubscriptionInput \<Rightarrow> Plan \<Rightarrow> PlanPrice \<Rightarrow> string
     \<Rightarrow> (int option \<times> int option \<times> int \<times> SubscriptionStatus) \<Rightarrow> Subscription" where
  "new_subscription e applicationId testMode input plan price cur w =
     (case w of (trialStart, trialEnd, periodStart, st) \<Rightarrow>
        (let now = js_now e;
             billingAnchor = (case c_billing_cycle_anchor input of Some a \<Rightarrow> a | None \<Rightarrow> now);
             periodEnd = calculatePeriodEnd (js_tza e) periodStart
                           (billing_interval plan) (billing_interval_count plan)
         in \<lparr> sub_id = uuid_second e,
              application_id = applicationId,
              customer_id = c_customer_id input,
              external_id = (if truthy (c_external_id input) then c_external_id input else None),
              status = st,
              items = [\<lparr> item_id = uuid_first e,
                         plan_id = pl_id plan,
                         price_id = pp_id price,
                         quantity = (case c_quantity input of
                                       Some q \<Rightarrow> if q \<noteq> 0 then q else 1
                                     | None \<Rightarrow> 1) \<rparr>],
              currency = cur,
              current_period_start = (if st = Trialing then now else periodStart),
              current_period_end = (if st = Trialing then the trialEnd else periodEnd),
              trial_start = trialStart,
              trial_end = trialEnd,
              cancel_at = None,
              canceled_at = None,
              cancellation_reason = None,
              cancel_at_period_end = False,
              pause_start = None,
              pause_end = None,
              billing_cycle_anchor = billingAnchor,
              metadata = (case c_metadata input of Some m \<Rightarrow> m | None \<Rightarrow> ''{}''),
              test_mode = testMode,
              created_at = sql_now e,
              updated_at = sql_now e \<rparr>))"

definition create ::
  "env \<Rightarrow> string \<Rightarrow> bool \<Rightarrow> CreateSubscriptionInput \<Rightarrow> string \<Rightarrow> database
     \<Rightarrow> (error + Subscription) \<times> database" where
  "create e applicationId testMode input defaultCurrency db =
     (case customer_getById db applicationId (c_customer_id input) testMode False of
        Inl err \<Rightarrow> (Inl err, db)
      | Inr _ \<Rightarrow>
     (case plan_getById db applicationId (c_plan_id input) testMode False of
        Inl err \<Rightarrow> (Inl err, db)
      | Inr plan \<Rightarrow>
          if pl_status plan \<noteq> PlanActive
          then (Inl (ValidationError ''Cannot subscribe to inactive plan''), db)
          else if truthy (c_external_id input)
                  \<and> (\<exists>s \<in> set (subscriptions db).
                        application_id s = applicationId
                        \<and> external_id s = c_external_id input
                        \<and> test_mode s = testMode)
          then (Inl (ConflictError ''Subscription with external_id already exists''), db)
          else
            (let cur = toUpperCase (if truthy (c_currency input) then the (c_currency input)
                                    else defaultCurrency)
             in case getPriceForCurrency plan cur of
                  None \<Rightarrow> (Inl (ValidationError ''Plan does not have pricing for currency''), db)
                | Some price \<Rightarrow>
                    (case trial_window e input plan of
                       Inl err \<Rightarrow> (Inl err, db)
                     | Inr w \<Rightarrow>
                         (let row = new_subscription e applicationId testMode input plan price cur w
                          in (Inr row, db\<lparr>subscriptions := subscriptions db @ [row]\<rparr>))))))"

subsection \<open>update and changePlan\<close>

definition update ::
  "env \<Rightarrow> string \<Rightarrow> string \<Rightarrow> bool \<Rightarrow> UpdateSubscriptionInput \<Rightarrow> database
     \<Rightarrow> (error + Subscription) \<times> database" where
  "update e applicationId subscriptionId testMode input db =
     (case getById db applicationId subscriptionId testMode of
        Inl err \<Rightarrow> (Inl err, db)
      | Inr existing \<Rightarrow>
          if status existing = Canceled
          then (Inl (ValidationError ''Cannot update canceled subscription''), db)
          else if truthy (u_external_id input)
                  \<and> u_external_id input \<noteq> external_id existing
                  \<and> (\<exists>s \<in> set (subscriptions db).
                        application_id s = applicationId
                        \<and> external_id s = u_external_id input
                        \<and> test_mode s = testMode
                        \<and> sub_id s \<noteq> subscriptionId)
          then (Inl (ConflictError ''Subscription with external_id already exists''), db)
          else
            update_returning (scoped_id subscriptionId applicationId testMode)
              (\<lambda>s. (let s1 = s\<lparr>updated_at := sql_now e\<rparr>;
                         s2 = (case u_external_id input of
                                 Some x \<Rightarrow> s1\<lparr>external_id := Some x\<rparr>
                               | None \<Rightarrow> s1);
                         s3 = (case u_quantity input of
                                 Some q \<Rightarrow>
                                   s2\<lparr>items := map (\<lambda>item. item\<lparr>quantity := q\<rparr>) (items existing)\<rparr>
                               | None \<Rightarrow> s2)
                     in case u_metadata input of
                          Some m \<Rightarrow> s3\<lparr>metadata := m\<rparr>
                        | None \<Rightarrow> s3))
              db)"

record ChangePlanOptions =
  prorate :: "bool option"
  immediate :: "bool option"

definition changePlan ::
  "env \<Rightarrow> string \<Rightarrow> string \<Rightarrow> bool \<Rightarrow> string \<Rightarrow> ChangePlanOptions \<Rightarrow> database
     \<Rightarrow> (error + Subscription) \<times> database" where
  "changePlan e applicationId subscriptionId testMode newPlanId options db =
     (case getById db applicationId subscriptionId testMode of
        Inl err \<Rightarrow> (Inl err, db)
      | Inr existing \<Rightarrow>
          if status existing \<noteq> Active \<and> status existing \<noteq> Trialing
          then (Inl (ValidationError ''Can only change plan for active or trialing subscriptions''), db)
          else
            (case plan_getById db applicationId newPlanId testMode False of
               Inl err \<Rightarrow> (Inl err, db)
             | Inr newPlan \<Rightarrow>
                 if pl_status newPlan \<noteq> PlanActive
                 then (Inl (ValidationError ''Cannot change to inactive plan''), db)
                 else
                   (case getPriceForCurrency newPlan (currency existing) of
                      None \<Rightarrow> (Inl (ValidationError ''New plan does not support currency''), db)
                    | Some price \<Rightarrow>
                        (let newItems =
                               [\<lparr> item_id = (case items existing of
                                               [] \<Rightarrow> uuid_first e
                                             | i # _ \<Rightarrow> if item_id i \<noteq> [] then item_id i
                                                        else uuid_first e),
                                  plan_id = pl_id newPlan,
                                  price_id = pp_id price,
                                  quantity = (case items existing of
                                                [] \<Rightarrow> 1
                                              | i # _ \<Rightarrow> if quantity i \<noteq> 0 then quantity i
                                                         else 1) \<rparr>];
                             periodStart = (if immediate options = Some True then js_now e
                                            else current_period_start existing);
                             periodEnd = (if immediate options = Some True
                                          then calculatePeriodEnd (js_tza e) (js_now e)
                                                 (billing_interval newPlan)
                                                 (billing_interval_count newPlan)
                                          else current_period_end existing)
                         in update_returning (scoped_id subscriptionId applicationId testMode)
                              (\<lambda>s. s\<lparr>items := newItems,
                                      current_period_start := periodStart,
                                      current_period_end := periodEnd,
                                      updated_at := sql_now e\<rparr>)
                              db))))"

subsection \<open>cancel, reactivate, pause, resume\<close>

record CancelOptions =
  at_period_end :: "bool option"
  reason :: "CancellationReason option"

definition cancel ::
  "env \<Rightarrow> string \<Rightarrow> string \<Rightarrow> bool \<Rightarrow> CancelOptions \<Rightarrow> database
     \<Rightarrow> (error + Subscription) \<times> database" where
  "cancel e applicationId subscriptionId testMode options db =
     (case getById db applicationId subscriptionId testMode of
        Inl err \<Rightarrow> (Inl err, db)
      | Inr existing \<Rightarrow>
          if status existing = Canceled
          then (Inl (ValidationError ''Subscription is already canceled''), db)
          else
            (let atPeriodEnd = (case at_period_end options of Some b \<Rightarrow> b | None \<Rightarrow> True);
                 now = js_now e;
                 why = (case reason options of Some r \<Rightarrow> r | None \<Rightarrow> CustomerRequest)
             in if atPeriodEnd
                then update_returning (scoped_id subscriptionId applicationId testMode)
                       (\<lambda>s. s\<lparr>cancel_at_period_end := True,
                               cancel_at := Some (current_period_end existing),
                               cancellation_reason := Some why,
                               updated_at := sql_now e\<rparr>)
                       db
                else update_returning (scoped_id subscriptionId applicationId testMode)
                       (\<lambda>s. s\<lparr>status := Canceled,
                               canceled_at := Some now,
                               cancel_at := Some now,
                               cancellation_reason := Some why,
                               updated_at := sql_now e\<rparr>)
                       db))"

definition reactivate ::
  "env \<Rightarrow> string \<Rightarrow> string \<Rightarrow> bool \<Rightarrow> database \<Rightarrow> (error + Subscription) \<times> database" where
  "reactivate e applicationId subscriptionId testMode db =
     (case getById db applicationId subscriptionId testMode of
        Inl err \<Rightarrow> (Inl err, db)
      | Inr existing \<Rightarrow>
          if status existing = Canceled
          then (Inl (ValidationError ''Cannot reactivate fully canceled subscription''), db)
          else if \<not> cancel_at_period_end existing
          then (Inl (ValidationError ''Subscription is not pending cancellation''), db)
          else update_returning (scoped_id subscriptionId applicationId testMode)
                 (\<lambda>s. s\<lparr>cancel_at_period_end := False,
                         cancel_at := None,
                         cancellation_reason := None,
                         updated_at := sql_now e\<rparr>)
                 db)"

record PauseOptions =
  resume_at :: "int option"

definition pause ::
  "env \<Rightarrow> string \<Rightarrow> string \<Rightarrow> bool \<Rightarrow> PauseOptions \<Rightarrow> database
     \<Rightarrow> (error + Subscription) \<times> database" where
  "pause e applicationId subscriptionId testMode options db =
     (case getById db applicationId subscriptionId testMode of
        Inl err \<Rightarrow> (Inl err, db)
      | Inr existing \<Rightarrow>
          if status existing \<noteq> Active
          then (Inl (ValidationError ''Can only pause active subscriptions''), db)
          else
            (let now = js_now e; resumeAt = resume_at options
             in if resumeAt \<noteq> None \<and> the resumeAt \<le> now
                then (Inl (ValidationError ''resume_at must be in the future''), db)
                else update_returning (scoped_id subscriptionId applicationId testMode)
                       (\<lambda>s. s\<lparr>status := Paused,
                               pause_start := Some now,
                               pause_end := resumeAt,
                               updated_at := sql_now e\<rparr>)
                       db))"

text \<open>\<open>existing.items[0].plan_id\<close> throws a TypeError when the subscription has no
  item.\<close>

definition resume ::
  "env \<Rightarrow> string \<Rightarrow> string \<Rightarrow> bool \<Rightarrow> database \<Rightarrow> (error + Subscription) \<times> database" where
  "resume e applicationId subscriptionId testMode db =
     (case getById db applicationId subscriptionId testMode of
        Inl err \<Rightarrow> (Inl err, db)
      | Inr existing \<Rightarrow>
          if status existing \<noteq> Paused
          then (Inl (ValidationError ''Subscription is not paused''), db)
          else
            (case items existing of
               [] \<Rightarrow> (Inl (TypeError ''Cannot read properties of undefined''), db)
             | item # _ \<Rightarrow>
                 (case plan_getById db applicationId (plan_id item) testMode True of
                    Inl err \<Rightarrow> (Inl err, db)
                  | Inr plan \<Rightarrow>
                      (let now = js_now e;
                           periodEnd = calculatePeriodEnd (js_tza e) now
                                         (billing_interval plan) (billing_interval_count plan)
                       in update_returning (scoped_id subscriptionId applicationId testMode)
                            (\<lambda>s. s\<lparr>status := Active,
                                    pause_start := None,
                                    pause_end := None,
                                    current_period_start := now,
                                    current_period_end := periodEnd,
                                    updated_at := sql_now e\<rparr>)
                            db))))"

subsection \<open>list and getCustomerSubscriptions\<close>

text \<open>\<open>ORDER BY created_at DESC\<close>: rows of equal \<open>created_at\<close> come in an order SQL leaves
  open; the model keeps them in table order.\<close>

definition order_by_created_at_desc :: "Subscription list \<Rightarrow> Subscription list" where
  "order_by_created_at_desc rows = sort_key (\<lambda>s. - created_at s) rows"

text \<open>The conditions of \<open>list\<close>. The cursor condition
  \<open>created_at < (SELECT created_at FROM subscriptions WHERE id = $n)\<close> looks its row up by
  id alone; it holds for no row when the subquery finds none.\<close>

definition list_condition :: "ListSubscriptionsParams \<Rightarrow> database \<Rightarrow> Subscription \<Rightarrow> bool" where
  "list_condition params db s =
     (application_id s = l_application_id params
      \<and> test_mode s = l_test_mode params
      \<and> (truthy (l_customer_id params) \<longrightarrow> customer_id s = the (l_customer_id params))
      \<and> (truthy (l_plan_id params) \<longrightarrow> (\<exists>i \<in> set (items s). plan_id i = the (l_plan_id params)))
      \<and> (l_status params \<noteq> None \<longrightarrow> status s = the (l_status params))
      \<and> (truthy (l_starting_after params) \<longrightarrow>
            (case find (\<lambda>r. sub_id r = the (l_starting_after params)) (subscriptions db) of
               None \<Rightarrow> False
             | Some r \<Rightarrow> created_at s < created_at r)))"

definition list_subscriptions :: "ListSubscriptionsParams \<Rightarrow> database \<Rightarrow> ListSubscriptionsResult" where
  "list_subscriptions params db =
     (let limit = (case l_limit params of Some n \<Rightarrow> n | None \<Rightarrow> 10);
          safeLimit = min (max 1 limit) 100;
          rows = take (nat (safeLimit + 1))
                   (order_by_created_at_desc (filter (list_condition params db) (subscriptions db)))
      in \<lparr> data = take (nat safeLimit) rows,
           has_more = (int (length rows) > safeLimit) \<rparr>)"

definition getCustomerSubscriptions ::
  "database \<Rightarrow> string \<Rightarrow> string \<Rightarrow> bool \<Rightarrow> SubscriptionStatus option \<Rightarrow> Subscription list" where
  "getCustomerSubscriptions db applicationId customerId testMode st =
     order_by_created_at_desc
       (filter (\<lambda>s. application_id s = applicationId \<and> customer_id s = customerId
                     \<and> test_mode s = testMode
                     \<and> (st \<noteq> None \<longrightarrow> status s = the st))
          (subscriptions db))"

subsection \<open>activateTrialEnding\<close>

text \<open>The subquery of \<open>activateTrialEnding\<close>: the interval of the plan whose id is
  \<open>items->0->>'plan_id'\<close>, as (months, days); \<open>None\<close> is SQL's \<open>NULL\<close> (no item, or no
  such plan).\<close>

definition plan_interval :: "database \<Rightarrow> Subscription \<Rightarrow> (int \<times> int) option" where
  "plan_interval db s =
     (case items s of
        [] \<Rightarrow> None
      | item # _ \<Rightarrow>
          (case find (\<lambda>p. pl_id p = plan_id item) (plans db) of
             None \<Rightarrow> None
           | Some p \<Rightarrow>
               Some (case billing_interval p of
                       Day \<Rightarrow> (0, billing_interval_count p)
                     | Week \<Rightarrow> (0, 7 * billing_interval_count p)
                     | Month \<Rightarrow> (billing_interval_count p, 0)
                     | Year \<Rightarrow> (12 * billing_interval_count p, 0))))"

text \<open>\<open>WHERE id = $1 AND status = 'trialing' AND trial_end <= NOW()\<close>.\<close>

definition trial_ended :: "env \<Rightarrow> string \<Rightarrow> Subscription \<Rightarrow> bool" where
  "trial_ended e subscriptionId s =
     (sub_id s = subscriptionId \<and> status s = Trialing
      \<and> trial_end s \<noteq> None \<and> the (trial_end s) \<le> sql_now e)"

text \<open>The statement fails as a whole, and changes nothing, when it would store \<open>NULL\<close> in
  the column \<open>current_period_end\<close>, which is \<open>NOT NULL\<close>. It returns \<open>null\<close>
  (\<open>Inr None\<close>) when no row satisfies its condition.\<close>

definition activateTrialEnding ::
  "env \<Rightarrow> string \<Rightarrow> database \<Rightarrow> (error + Subscription option) \<times> database" where
  "activateTrialEnding e subscriptionId db =
     (if \<exists>s \<in> set (subscriptions db). trial_ended e subscriptionId s \<and> plan_interval db s = None
      then (Inl (DatabaseError ''null value in column current_period_end''), db)
      else
        (let upd = (\<lambda>s. s\<lparr>status := Active,
                           current_period_start := the (trial_end s),
                           current_period_end :=
                             (case the (plan_interval db s) of
                                (months, days) \<Rightarrow>
                                  timestamptz_pl_interval (pg_tza e) (the (trial_end s)) months days),
                           updated_at := sql_now e\<rparr>)
         in (case sql_returning (trial_ended e subscriptionId) upd db of
               [] \<Rightarrow> Inr None
             | r # _ \<Rightarrow> Inr (Some r),
             sql_update (trial_ended e subscriptionId) upd db)))"

section \<open>The preconditions of the lifecycle operations, as the specification lists them\<close>











section \<open>The scope of a caller\<close>

text \<open>
  A caller acts for one application (tenant) in one mode: its scope. \<open>restrict_scope\<close>
  keeps of a store what belongs to that scope, \<open>outside_scope\<close> lists the subscriptions
  that do not.
\<close>

definition in_scope :: "string \<Rightarrow> bool \<Rightarrow> Subscription \<Rightarrow> bool" where
  "in_scope applicationId testMode s =
     (application_id s = applicationId \<and> test_mode s = testMode)"

definition restrict_scope :: "string \<Rightarrow> bool \<Rightarrow> database \<Rightarrow> database" where
  "restrict_scope applicationId testMode db =
     \<lparr> subscriptions = filter (in_scope applicationId testMode) (subscriptions db),
       plans = filter (\<lambda>p. pl_application_id p = applicationId \<and> pl_test_mode p = testMode)
                 (plans db),
       customers = filter (\<lambda>c. cust_application_id c = applicationId
                                \<and> cust_test_mode c = testMode) (customers db) \<rparr>"

definition outside_scope :: "string \<Rightarrow> bool \<Rightarrow> database \<Rightarrow> Subscription list" where
  "outside_scope applicationId testMode db =
     filter (\<lambda>s. \<not> in_scope applicationId testMode s) (subscriptions db)"

text \<open>An operation reads and writes only its caller's scope when, on every store: its
  result is the one it gives on the caller's part of the store alone; what it leaves in
  the caller's scope is what it leaves when run on that part alone; and the subscriptions
  outside the scope, the plans and the customers are as they were. \<open>r\<close> is the outcome on
  the store \<open>db\<close>, \<open>r'\<close> the outcome on the caller's part of \<open>db\<close>.\<close>

definition scoped_effect ::
  "string \<Rightarrow> bool \<Rightarrow> database \<Rightarrow> 'r \<times> database \<Rightarrow> 'r \<times> database \<Rightarrow> bool" where
  "scoped_effect applicationId testMode db r r' =
     (fst r = fst r'
      \<and> restrict_scope applicationId testMode (snd r) = snd r'
      \<and> outside_scope applicationId testMode (snd r) = outside_scope applicationId testMode db
      \<and> plans (snd r) = plans db
      \<and> customers (snd r) = customers db)"

definition scoped_operation :: "string \<Rightarrow> bool \<Rightarrow> (database \<Rightarrow> 'r \<times> database) \<Rightarrow> bool" where
  "scoped_operation applicationId testMode operation =
     (\<forall>db. scoped_effect applicationId testMode db (operation db)
             (operation (restrict_scope applicationId testMode db)))"

definition scoped_query :: "string \<Rightarrow> bool \<Rightarrow> (database \<Rightarrow> 'r) \<Rightarrow> bool" where
  "scoped_query applicationId testMode query =
     (\<forall>db. query db = query (restrict_scope applicationId testMode db))"

text \<open>\<open>rescope\<close> hands every subscription of a store to another application and mode; an
  operation that commutes with it does not look at the scope of the rows it handles.
  \<open>guard_of_activation\<close> is the condition \<open>status == 'trialing'\<close> and \<open>trial_end <= now\<close>
  on the subscription of the given id.\<close>

definition move_scope :: "string \<Rightarrow> bool \<Rightarrow> Subscription \<Rightarrow> Subscription" where
  "move_scope applicationId testMode s = s\<lparr>application_id := applicationId, test_mode := testMode\<rparr>"

definition rescope :: "string \<Rightarrow> bool \<Rightarrow> database \<Rightarrow> database" where
  "rescope applicationId testMode db =
     db\<lparr>subscriptions := map (move_scope applicationId testMode) (subscriptions db)\<rparr>"

definition guard_of_activation :: "int \<Rightarrow> string \<Rightarrow> Subscription \<Rightarrow> bool" where
  "guard_of_activation now subscriptionId s =
     (sub_id s = subscriptionId \<and> status s = Trialing
      \<and> (case trial_end s of None \<Rightarrow> False | Some te \<Rightarrow> te \<le> now))"

section \<open>Concrete inputs\<close>

text \<open>Prices, plans and stores on which the theorems below are evaluated.\<close>

definition tiered_price :: "PriceTier list \<Rightarrow> PlanPrice" where
  "tiered_price ts =
     \<lparr>pp_id = ''price_1'', pp_currency = ''USD'', unit_amount = 700, pricing_model = Tiered,
      tiers = Some ts, tier_mode = None\<rparr>"

definition volume_price :: "PriceTier list \<Rightarrow> PlanPrice" where
  "volume_price ts =
     \<lparr>pp_id = ''price_1'', pp_currency = ''USD'', unit_amount = 700, pricing_model = Volume,
      tiers = Some ts, tier_mode = None\<rparr>"

definition untiered_price :: "PricingModel \<Rightarrow> PlanPrice" where
  "untiered_price m =
     \<lparr>pp_id = ''price_1'', pp_currency = ''USD'', unit_amount = 700, pricing_model = m,
      tiers = None, tier_mode = None\<rparr>"

text \<open>The tiers of the specification's scenario, and three graduated tiers with the
  bounds 100 and 200.\<close>

definition scenario_tiers :: "PriceTier list" where
  "scenario_tiers =
     [\<lparr>up_to = Some 100, tier_unit_amount = 0, flat_amount = None\<rparr>,
      \<lparr>up_to = None, tier_unit_amount = 30, flat_amount = None\<rparr>]"

definition graduated_three_tiers :: "PriceTier list" where
  "graduated_three_tiers =
     [\<lparr>up_to = Some 100, tier_unit_amount = 10, flat_amount = None\<rparr>,
      \<lparr>up_to = Some 200, tier_unit_amount = 5, flat_amount = None\<rparr>,
      \<lparr>up_to = None, tier_unit_amount = 1, flat_amount = None\<rparr>]"

definition surcharge_tiers :: "PriceTier list" where
  "surcharge_tiers = [\<lparr>up_to = Some 10, tier_unit_amount = 5, flat_amount = Some 100\<rparr>]"

definition negative_bound_tiers :: "PriceTier list" where
  "negative_bound_tiers = [\<lparr>up_to = Some (- 5), tier_unit_amount = 3, flat_amount = None\<rparr>]"

text \<open>A plan input with one tiered price whose only tier carries a negative
  \<open>flat_amount\<close>.\<close>

definition negative_flat_input :: CreatePlanInput where
  "negative_flat_input =
     \<lparr>in_external_id = None, in_name = ''Metered'', in_billing_interval = Month,
      in_billing_interval_count = None,
      in_prices = [\<lparr>in_currency = ''usd'', in_unit_amount = 0, in_pricing_model = Some Tiered,
                     in_tiers = Some [\<lparr>up_to = None, tier_unit_amount = 0,
                                       flat_amount = Some (- 500)\<rparr>],
                     in_tier_mode = None\<rparr>],
      in_trial_period_days = None, in_status = None\<rparr>"

text \<open>The scenario of the specification: a monthly plan with a flat USD price of 5000, one
  customer, and a process that reads 2024-01-31T00:00:00Z (1706659200000) from its clock,
  in UTC.\<close>

definition scenario_plan :: Plan where
  "scenario_plan =
     \<lparr>pl_id = ''plan_1'', pl_application_id = ''app_1'', billing_interval = Month,
      billing_interval_count = 1,
      prices = [\<lparr>pp_id = ''price_1'', pp_currency = ''USD'', unit_amount = 5000,
                  pricing_model = Flat, tiers = None, tier_mode = None\<rparr>],
      trial_period_days = 0, pl_status = PlanActive, pl_test_mode = False\<rparr>"

definition scenario_db :: database where
  "scenario_db =
     \<lparr>subscriptions = [],
      plans = [scenario_plan],
      customers = [\<lparr>cust_id = ''cus_1'', cust_application_id = ''app_1'',
                     cust_test_mode = False, deleted_at = None\<rparr>]\<rparr>"

definition scenario_env :: env where
  "scenario_env =
     \<lparr>js_now = 1706659200000, sql_now = 1706659200250, uuid_first = ''item_1'',
      uuid_second = ''sub_1'', js_tza = utc_zone, pg_tza = utc_zone\<rparr>"

definition scenario_input :: CreateSubscriptionInput where
  "scenario_input =
     \<lparr>c_customer_id = ''cus_1'', c_plan_id = ''plan_1'', c_external_id = None,
      c_currency = Some ''usd'', c_quantity = None, c_trial_period_days = None,
      c_trial_end = None, c_billing_cycle_anchor = None, c_metadata = None\<rparr>"

text \<open>A store that holds, beside the scenario's plan and customer, one subscription of
  that customer: \<open>stored_subscription st\<close> is the subscription in status \<open>st\<close>, in its
  trial until 2024-01-14T00:00:00Z (1705190400000) and last written at
  2024-01-01T00:00:00Z (1704067200000).\<close>

definition stored_subscription :: "SubscriptionStatus \<Rightarrow> Subscription" where
  "stored_subscription st =
     \<lparr>sub_id = ''sub_1'', application_id = ''app_1'', customer_id = ''cus_1'',
      external_id = None, status = st,
      items = [\<lparr>item_id = ''item_1'', plan_id = ''plan_1'', price_id = ''price_1'',
                 quantity = 1\<rparr>],
      currency = ''USD'',
      current_period_start = 1704067200000, current_period_end = 1705190400000,
      trial_start = Some 1704067200000, trial_end = Some 1705190400000,
      cancel_at = None, canceled_at = None, cancellation_reason = None,
      cancel_at_period_end = False, pause_start = None, pause_end = None,
      billing_cycle_anchor = 1704067200000, metadata = ''{}'', test_mode = False,
      created_at = 1704067200000, updated_at = 1704067200000\<rparr>"

definition stored_db :: "SubscriptionStatus \<Rightarrow> database" where
  "stored_db st = scenario_db\<lparr>subscriptions := [stored_subscription st]\<rparr>"

text \<open>Tiers that pass validation and carry a surcharge on the second tier only.\<close>

definition later_surcharge_tiers :: "PriceTier list" where
  "later_surcharge_tiers =
     [\<lparr>up_to = Some 10, tier_unit_amount = 5, flat_amount = None\<rparr>,
      \<lparr>up_to = None, tier_unit_amount = 3, flat_amount = Some 100\<rparr>]"

text \<open>A zone with daylight saving, New York in 2024: five hours behind UTC, and four hours
  behind from 2024-03-10T07:00:00Z (1710054000000) until 2024-11-03T06:00:00Z
  (1730613600000); in local time that is from 03:00 on 10 March (1710039600000) until
  02:00 on 3 November (1730599200000). A process in that zone reads 2024-03-01T12:00:00Z
  (1709294400000) from its clock.\<close>

definition new_york_2024 :: zone where
  "new_york_2024 t isUTC =
     (if isUTC
      then (if 1710054000000 \<le> t \<and> t < 1730613600000 then - 14400000 else - 18000000)
      else (if 1710039600000 \<le> t \<and> t < 1730599200000 then - 14400000 else - 18000000))"

definition new_york_env :: env where
  "new_york_env =
     \<lparr>js_now = 1709294400000, sql_now = 1709294400250, uuid_first = ''item_1'',
      uuid_second = ''sub_1'', js_tza = new_york_2024, pg_tza = utc_zone\<rparr>"

text \<open>The scenario's store with a plan whose own \<open>trial_period_days\<close> is 14.\<close>

definition trial_plan_db :: database where
  "trial_plan_db = scenario_db\<lparr>plans := [scenario_plan\<lparr>trial_period_days := 14\<rparr>]\<rparr>"

text \<open>A store of two tenants: the stored active subscription of \<open>app_1\<close> and a trialing
  subscription \<open>sub_2\<close> of \<open>app_2\<close>, created one second later; and a listing by \<open>app_1\<close>
  that names \<open>sub_2\<close> as its cursor.\<close>

definition other_tenant_subscription :: Subscription where
  "other_tenant_subscription =
     (stored_subscription Trialing)
       \<lparr>sub_id := ''sub_2'', application_id := ''app_2'', created_at := 1704067201000\<rparr>"

definition two_tenant_db :: database where
  "two_tenant_db =
     scenario_db\<lparr>subscriptions := [stored_subscription Active, other_tenant_subscription]\<rparr>"

definition cursor_params :: ListSubscriptionsParams where
  "cursor_params =
     \<lparr>l_application_id = ''app_1'', l_test_mode = False, l_customer_id = None,
      l_plan_id = None, l_status = None, l_limit = None, l_starting_after = Some ''sub_2''\<rparr>"


section \<open>Theorems: pricing\<close>

subsection \<open>Graduated tiers\<close>

lemma scenario_graduated_charge:
  "calculatePrice (tiered_price scenario_tiers) 150 = 1500"
  by (simp add: tiered_price_def scenario_tiers_def calculatePrice_def add_flat_amount_def)

text \<open>
  C1. The claim: for a tiered price with validated tiers and a positive quantity,
  \<open>calculatePrice\<close> charges each tier for at most \<open>up_to\<close> minus the previous tier's
  \<open>up_to\<close> units. The code takes \<open>min(remaining, tier.up_to)\<close> units instead: it never
  subtracts the previous bound. With the validated tiers (100 at 10, 200 at 5, the rest
  at 1) and quantity 250 it charges the second tier for 150 units and returns 1750, where
  the walk the specification describes charges it for 100 units, leaves 50 for the last
  tier and gives 1550.
\<close>

theorem tiered_ignores_previous_bound:
  "validateTiers graduated_three_tiers = Inr ()
   \<and> calculatePrice (tiered_price graduated_three_tiers) 250 = 1750
   \<and> spec_graduated 0 250 graduated_three_tiers = 1550"
  by (simp add: validateTiers_def graduated_three_tiers_def tiered_price_def calculatePrice_def
      add_flat_amount_def)

subsection \<open>Quantity zero\<close>

lemma tiered_loop_zero:
  "up_to tier = None \<or> 0 \<le> the (up_to tier)
   \<Longrightarrow> tiered_loop 0 0 (tier # rest) = (case flat_amount tier of None \<Rightarrow> 0 | Some f \<Rightarrow> f)"
  by (auto simp: Let_def add_flat_amount_def split: option.splits)

lemma volume_loop_zero:
  "volume_loop 0 ts =
     (case find (\<lambda>tier. up_to tier = None \<or> 0 \<le> the (up_to tier)) ts of
        None \<Rightarrow> None
      | Some tier \<Rightarrow> Some (case flat_amount tier of None \<Rightarrow> 0 | Some f \<Rightarrow> f))"
  by (induction ts) (auto simp: add_flat_amount_def split: option.splits)

text \<open>
  C4, as amended. With quantity 0, \<open>calculatePrice\<close> returns the base \<open>unit_amount\<close> of a
  flat price and 0 for a per-unit price. For a tiered or volume price it returns the
  \<open>flat_amount\<close> of the one tier it reaches, and 0 when that tier has none, when the tiers
  are absent or empty, or when it reaches no tier: under the tiered model that tier is the
  first one, provided its \<open>up_to\<close> is not negative; under the volume model it is the first
  tier whose \<open>up_to\<close> is null or not negative. So the result is 0 exactly when the tier
  reached carries no non-zero \<open>flat_amount\<close>; tiers after it do not matter.
\<close>

theorem calculatePrice_zero_quantity:
  "(pricing_model price = Flat \<longrightarrow> calculatePrice price 0 = unit_amount price)
   \<and> (pricing_model price = PerUnit \<longrightarrow> calculatePrice price 0 = 0)
   \<and> (pricing_model price = Tiered \<longrightarrow>
        (case tiers price of
           None \<Rightarrow> calculatePrice price 0 = 0
         | Some [] \<Rightarrow> calculatePrice price 0 = 0
         | Some (tier # rest) \<Rightarrow>
             (up_to tier = None \<or> 0 \<le> the (up_to tier)) \<longrightarrow>
               calculatePrice price 0 = (case flat_amount tier of None \<Rightarrow> 0 | Some f \<Rightarrow> f)))
   \<and> (pricing_model price = Volume \<longrightarrow>
        calculatePrice price 0 =
          (case find (\<lambda>tier. up_to tier = None \<or> 0 \<le> the (up_to tier))
                  (case tiers price of None \<Rightarrow> [] | Some ts \<Rightarrow> ts) of
             None \<Rightarrow> 0
           | Some tier \<Rightarrow> (case flat_amount tier of None \<Rightarrow> 0 | Some f \<Rightarrow> f)))"
proof (intro conjI impI)
  assume "pricing_model price = Flat"
  then show "calculatePrice price 0 = unit_amount price" by (simp add: calculatePrice_def)
next
  assume "pricing_model price = PerUnit"
  then show "calculatePrice price 0 = 0" by (simp add: calculatePrice_def)
next
  assume m: "pricing_model price = Tiered"
  show "case tiers price of
           None \<Rightarrow> calculatePrice price 0 = 0
         | Some [] \<Rightarrow> calculatePrice price 0 = 0
         | Some (tier # rest) \<Rightarrow>
             (up_to tier = None \<or> 0 \<le> the (up_to tier)) \<longrightarrow>
               calculatePrice price 0 = (case flat_amount tier of None \<Rightarrow> 0 | Some f \<Rightarrow> f)"
  proof (cases "tiers price")
    case None
    with m show ?thesis by (simp add: calculatePrice_def)
  next
    case (Some ts)
    show ?thesis
    proof (cases ts)
      case Nil
      with m Some show ?thesis by (simp add: calculatePrice_def)
    next
      case (Cons tier rest)
      with m Some show ?thesis
        using tiered_loop_zero[of tier rest] by (simp add: calculatePrice_def)
    qed
  qed
next
  assume m: "pricing_model price = Volume"
  show "calculatePrice price 0 =
          (case find (\<lambda>tier. up_to tier = None \<or> 0 \<le> the (up_to tier))
                  (case tiers price of None \<Rightarrow> [] | Some ts \<Rightarrow> ts) of
             None \<Rightarrow> 0
           | Some tier \<Rightarrow> (case flat_amount tier of None \<Rightarrow> 0 | Some f \<Rightarrow> f))"
  proof (cases "tiers price")
    case None
    with m show ?thesis by (simp add: calculatePrice_def)
  next
    case (Some ts)
    with m show ?thesis
      by (simp add: calculatePrice_def volume_loop_zero[of ts] split: option.splits)
  qed
qed

theorem calculatePrice_zero_quantity_witness:
  "calculatePrice (untiered_price Flat) 0 = 700
   \<and> calculatePrice (untiered_price PerUnit) 0 = 0
   \<and> calculatePrice (untiered_price Tiered) 0 = 0
   \<and> calculatePrice (tiered_price []) 0 = 0
   \<and> calculatePrice (tiered_price scenario_tiers) 0 = 0
   \<and> calculatePrice (tiered_price later_surcharge_tiers) 0 = 0
   \<and> calculatePrice (tiered_price surcharge_tiers) 0 = 100
   \<and> calculatePrice (untiered_price Volume) 0 = 0
   \<and> calculatePrice (volume_price later_surcharge_tiers) 0 = 0
   \<and> calculatePrice (volume_price negative_bound_tiers) 0 = 0
   \<and> calculatePrice (volume_price surcharge_tiers) 0 = 100"
  using calculatePrice_zero_quantity[of "untiered_price Flat"]
    calculatePrice_zero_quantity[of "untiered_price PerUnit"]
    calculatePrice_zero_quantity[of "untiered_price Tiered"]
    calculatePrice_zero_quantity[of "tiered_price []"]
    calculatePrice_zero_quantity[of "tiered_price scenario_tiers"]
    calculatePrice_zero_quantity[of "tiered_price later_surcharge_tiers"]
    calculatePrice_zero_quantity[of "tiered_price surcharge_tiers"]
    calculatePrice_zero_quantity[of "untiered_price Volume"]
    calculatePrice_zero_quantity[of "volume_price later_surcharge_tiers"]
    calculatePrice_zero_quantity[of "volume_price negative_bound_tiers"]
    calculatePrice_zero_quantity[of "volume_price surcharge_tiers"]
  by (simp add: untiered_price_def tiered_price_def volume_price_def scenario_tiers_def
      later_surcharge_tiers_def surcharge_tiers_def negative_bound_tiers_def)

text \<open>The claim as stated fails: a tier's \<open>flat_amount\<close> is added whether or not units fall
  in the tier, so a validated tier list with a surcharge on its first tier gives 100 for
  quantity 0 under both models; and a tier with a negative bound (which validation would
  reject) takes a negative number of units.\<close>

theorem calculatePrice_zero_quantity_counterexample:
  "validateTiers surcharge_tiers = Inr ()
   \<and> pricing_model (tiered_price surcharge_tiers) = Tiered
   \<and> calculatePrice (tiered_price surcharge_tiers) 0 = 100
   \<and> pricing_model (volume_price surcharge_tiers) = Volume
   \<and> calculatePrice (volume_price surcharge_tiers) 0 = 100
   \<and> calculatePrice (tiered_price negative_bound_tiers) 0 = - 15"
  by (simp add: validateTiers_def surcharge_tiers_def negative_bound_tiers_def tiered_price_def
      volume_price_def calculatePrice_def add_flat_amount_def)

subsection \<open>Sign of the amount\<close>

text \<open>
  C5. The claim: a price that passes plan-creation validation gives a non-negative amount
  for every non-negative quantity. \<open>validateTiers\<close> checks each tier's \<open>unit_amount\<close> and
  \<open>up_to\<close> but never its \<open>flat_amount\<close>: the input below passes \<open>validatePlanInput\<close>, and
  the price stored for it charges -500 for quantity 1.
\<close>

theorem validated_price_negative_amount:
  "validatePlanInput negative_flat_input = Inr ()
   \<and> calculatePrice (storedPrice ''price_1'' (hd (in_prices negative_flat_input))) 1 = - 500"
  by code_simp

subsection \<open>Tiers absent\<close>

text \<open>
  C9. A price whose model is tiered or volume and whose \<open>tiers\<close> are absent is charged
  \<open>unit_amount * quantity\<close> (\<open>calculatePrice\<close> has no error outcome), although
  \<open>validatePlanInput\<close> rejects such a price at plan creation with a ValidationError.
\<close>

theorem calculatePrice_tiers_absent:
  "((pricing_model price = Tiered \<or> pricing_model price = Volume) \<and> tiers price = None
     \<longrightarrow> calculatePrice price n = unit_amount price * n)
   \<and> ((in_pricing_model p = Some Tiered \<or> in_pricing_model p = Some Volume) \<and> in_tiers p = None
     \<longrightarrow> (\<exists>m. validatePrice p = Inl (ValidationError m)))"
  by (auto simp: calculatePrice_def validatePrice_def)

theorem calculatePrice_tiers_absent_witness:
  "calculatePrice (untiered_price Tiered) 3 = 2100
   \<and> calculatePrice (untiered_price Volume) 3 = 2100
   \<and> (\<exists>m. validatePrice \<lparr>in_currency = ''USD'', in_unit_amount = 700,
                            in_pricing_model = Some Tiered, in_tiers = None,
                            in_tier_mode = None\<rparr> = Inl (ValidationError m))"
  using calculatePrice_tiers_absent[of "untiered_price Tiered" 3
      "\<lparr>in_currency = ''USD'', in_unit_amount = 700, in_pricing_model = Some Tiered,
        in_tiers = None, in_tier_mode = None\<rparr>"]
    calculatePrice_tiers_absent[of "untiered_price Volume" 3]
  by (simp add: untiered_price_def)

section \<open>Theorems: calendar arithmetic\<close>

lemma int_div_lower:
  fixes a n q :: int
  assumes "0 < n" and "q = a div n"
  shows "n * q \<le> a"
proof -
  have "n * (a div n) + a mod n = a" by (rule mult_div_mod_eq)
  moreover have "0 \<le> a mod n" using assms(1) by simp
  ultimately show ?thesis unfolding assms(2) by linarith
qed

lemma int_div_upper:
  fixes a n q :: int
  assumes "0 < n" and "q = a div n"
  shows "a < n * q + n"
proof -
  have "n * (a div n) + a mod n = a" by (rule mult_div_mod_eq)
  moreover have "a mod n < n" using assms(1) by simp
  ultimately show ?thesis unfolding assms(2) by linarith
qed

lemma DayFromYear_estimate:
  "146097 * y - 287812090 \<le> 400 * DayFromYear y"
  "400 * DayFromYear y \<le> 146097 * y - 287810090"
proof -
  define q4 where "q4 = (y - 1969) div 4"
  define q100 where "q100 = (y - 1901) div 100"
  define q400 where "q400 = (y - 1601) div 400"
  have a: "4 * q4 \<le> y - 1969" "y - 1969 < 4 * q4 + 4"
    using int_div_lower[OF _ q4_def] int_div_upper[OF _ q4_def] by simp_all
  have b: "100 * q100 \<le> y - 1901" "y - 1901 < 100 * q100 + 100"
    using int_div_lower[OF _ q100_def] int_div_upper[OF _ q100_def] by simp_all
  have c: "400 * q400 \<le> y - 1601" "y - 1601 < 400 * q400 + 400"
    using int_div_lower[OF _ q400_def] int_div_upper[OF _ q400_def] by simp_all
  have d: "400 * DayFromYear y = 146000 * y - 287620000 + 400 * q4 - 400 * q100 + 400 * q400"
    by (simp add: DayFromYear_def q4_def q100_def q400_def)
  show "146097 * y - 287812090 \<le> 400 * DayFromYear y"
    unfolding d using a b c by linarith
  show "400 * DayFromYear y \<le> 146097 * y - 287810090"
    unfolding d using a b c by linarith
qed

lemma YearFromTime_bounds:
  "DayFromYear (YearFromTime t) \<le> DayNumber t \<and> DayNumber t < DayFromYear (YearFromTime t + 1)"
proof -
  define d where "d = DayNumber t"
  define q where "q = (400 * d) div 146097"
  have e1: "146097 * q \<le> 400 * d" "400 * d < 146097 * q + 146097"
    using int_div_lower[OF _ q_def] int_div_upper[OF _ q_def] by simp_all
  define ylo where "ylo = 1969 + q"
  define yhi where "yhi = 1972 + q"
  have m: "146097 * ylo = 146097 * q + 287664993" "146097 * yhi = 146097 * q + 288103284"
    by (simp_all add: ylo_def yhi_def)
  have lo: "DayFromYear ylo \<le> d"
    using DayFromYear_estimate(2)[of ylo] e1 unfolding m by linarith
  have hi: "d < DayFromYear yhi"
    using DayFromYear_estimate(1)[of yhi] e1 unfolding m by linarith
  have s: "1970 + q + 1 + 1 = yhi" "1970 + q - 1 + 1 = 1970 + q" "1970 + q - 1 = ylo"
    by (simp_all add: ylo_def yhi_def)
  have y: "YearFromTime t =
      (if DayFromYear (1970 + q + 1) \<le> d then 1970 + q + 1
       else if DayFromYear (1970 + q) \<le> d then 1970 + q else 1970 + q - 1)"
    by (simp add: YearFromTime_def Let_def d_def q_def)
  show ?thesis
    unfolding y d_def[symmetric] using lo hi unfolding ylo_def yhi_def
    by (auto simp: algebra_simps)
qed

lemma MonthFromTime_range: "0 \<le> MonthFromTime t \<and> MonthFromTime t \<le> 11"
  by (simp add: MonthFromTime_def Let_def)

lemma MakeDay_of_date:
  "MakeDay (YearFromTime t) (MonthFromTime t) (DateFromTime t + n) = DayNumber t + n"
proof -
  have m: "MonthFromTime t div 12 = 0" "MonthFromTime t mod 12 = MonthFromTime t"
    using MonthFromTime_range[of t] by simp_all
  show ?thesis
    by (simp add: MakeDay_def Let_def m DateFromTime_def DayWithinYear_def InLeapYear_def)
qed

lemma setDate_getDate_plus:
  "setDate tza t (getDate tza t + n) = UTC tza (LocalTime tza t + n * msPerDay)"
proof -
  have split: "DayNumber x * msPerDay + TimeWithinDay x = x" for x
    by (simp add: DayNumber_def TimeWithinDay_def)
  have "(DayNumber (LocalTime tza t) + n) * msPerDay + TimeWithinDay (LocalTime tza t)
          = (DayNumber (LocalTime tza t) * msPerDay + TimeWithinDay (LocalTime tza t))
            + n * msPerDay"
    by (simp add: algebra_simps)
  also have "\<dots> = LocalTime tza t + n * msPerDay"
    by (simp only: split)
  finally have moved:
    "(DayNumber (LocalTime tza t) + n) * msPerDay + TimeWithinDay (LocalTime tza t)
       = LocalTime tza t + n * msPerDay" .
  have "setDate tza t (getDate tza t + n)
          = UTC tza ((DayNumber (LocalTime tza t) + n) * msPerDay
                     + TimeWithinDay (LocalTime tza t))"
    by (simp add: setDate_def getDate_def Let_def MakeDate_def MakeDay_of_date)
  then show ?thesis by (simp only: moved)
qed

section \<open>Theorems: subscriptions\<close>

subsection \<open>create\<close>

text \<open>
  C3, as amended. Creating a subscription with \<open>trial_period_days = 14\<close>, given in the
  input or taken from the plan when the input gives none, and with no explicit
  \<open>trial_end\<close> (which would take precedence), yields a subscription that is trialing. Its
  trial starts at the instant \<open>create\<close> reads from the clock of the process, \<open>js_now\<close>;
  \<open>created_at\<close> is another reading, the database's \<open>NOW()\<close>. Its trial ends at that
  instant moved 14 days on the local calendar of the process, at the same local time of
  day: that is 14 times 24 hours later when the offset of the zone is the same at both
  ends (as in UTC), and an hour off across a change to or from daylight saving time. Its
  current period runs from the start of the trial to its end. The subscription returned
  is the row appended to the store.
\<close>

theorem create_trial_period_days:
  assumes created: "create e applicationId testMode input defaultCurrency db = (Inr s, db')"
    and no_end: "c_trial_end input = None"
    and days: "c_trial_period_days input = Some 14
         \<or> (c_trial_period_days input = None
             \<and> (\<exists>plan. plan_getById db applicationId (c_plan_id input) testMode False = Inr plan
                        \<and> trial_period_days plan = 14))"
  shows "status s = Trialing
         \<and> trial_start s = Some (js_now e)
         \<and> trial_end s = Some (UTC (js_tza e) (LocalTime (js_tza e) (js_now e) + 14 * msPerDay))
         \<and> (js_tza e (LocalTime (js_tza e) (js_now e) + 14 * msPerDay) False
               = js_tza e (js_now e) True
             \<longrightarrow> trial_end s = Some (js_now e + 14 * msPerDay))
         \<and> current_period_start s = js_now e
         \<and> Some (current_period_end s) = trial_end s
         \<and> created_at s = sql_now e
         \<and> subscriptions db' = subscriptions db @ [s]"
proof -
  define trialEnd where
    "trialEnd = UTC (js_tza e) (LocalTime (js_tza e) (js_now e) + 14 * msPerDay)"
  from created obtain plan price cur w where
    plan: "plan_getById db applicationId (c_plan_id input) testMode False = Inr plan"
    and w: "trial_window e input plan = Inr w"
    and s: "s = new_subscription e applicationId testMode input plan price cur w"
    and db': "db' = db\<lparr>subscriptions := subscriptions db @ [s]\<rparr>"
    by (auto simp: create_def Let_def split: sum.splits if_splits option.splits)
  have "(case c_trial_period_days input of Some d \<Rightarrow> d | None \<Rightarrow> trial_period_days plan) = 14"
    using days plan by auto
  then have "trial_window e input plan = Inr (Some (js_now e), Some trialEnd, trialEnd, Trialing)"
    using no_end by (simp add: trial_window_def Let_def setDate_getDate_plus trialEnd_def)
  with w have w': "w = (Some (js_now e), Some trialEnd, trialEnd, Trialing)" by simp
  have same: "js_tza e (LocalTime (js_tza e) (js_now e) + 14 * msPerDay) False
                = js_tza e (js_now e) True \<Longrightarrow> trialEnd = js_now e + 14 * msPerDay"
    by (simp add: trialEnd_def UTC_def LocalTime_def)
  show ?thesis
    using same unfolding s w' db' trialEnd_def[symmetric]
    by (simp add: new_subscription_def Let_def)
qed

lemma scenario_trial_created:
  "\<not> isl (fst (create scenario_env ''app_1'' False
                 (scenario_input\<lparr>c_trial_period_days := Some 14\<rparr>) ''NGN'' scenario_db))
   \<and> \<not> isl (fst (create scenario_env ''app_1'' False scenario_input ''NGN'' trial_plan_db))
   \<and> plan_getById trial_plan_db ''app_1'' ''plan_1'' False False
        = Inr (scenario_plan\<lparr>trial_period_days := 14\<rparr>)"
  by code_simp

theorem create_trial_period_days_witness:
  "(\<exists>s db'. create scenario_env ''app_1'' False
              (scenario_input\<lparr>c_trial_period_days := Some 14\<rparr>) ''NGN'' scenario_db = (Inr s, db')
     \<and> status s = Trialing
     \<and> trial_start s = Some 1706659200000
     \<and> trial_end s = Some 1707868800000
     \<and> current_period_start s = 1706659200000
     \<and> current_period_end s = 1707868800000
     \<and> created_at s = 1706659200250)
   \<and> (\<exists>s db'. create scenario_env ''app_1'' False scenario_input ''NGN'' trial_plan_db = (Inr s, db')
     \<and> status s = Trialing
     \<and> trial_start s = Some 1706659200000
     \<and> trial_end s = Some 1707868800000
     \<and> current_period_start s = 1706659200000
     \<and> current_period_end s = 1707868800000)"
proof -
  have z: "js_tza scenario_env = utc_zone" "js_now scenario_env = 1706659200000"
    "sql_now scenario_env = 1706659200250"
    by (simp_all add: scenario_env_def)
  obtain r db' where c: "create scenario_env ''app_1'' False
      (scenario_input\<lparr>c_trial_period_days := Some 14\<rparr>) ''NGN'' scenario_db = (r, db')"
    by (cases "create scenario_env ''app_1'' False
      (scenario_input\<lparr>c_trial_period_days := Some 14\<rparr>) ''NGN'' scenario_db")
  with scenario_trial_created obtain s where r: "r = Inr s" by (cases r) auto
  have a: "c_trial_end (scenario_input\<lparr>c_trial_period_days := Some 14\<rparr>) = None"
    by (simp add: scenario_input_def)
  have first: "status s = Trialing
     \<and> trial_start s = Some 1706659200000
     \<and> trial_end s = Some 1707868800000
     \<and> current_period_start s = 1706659200000
     \<and> current_period_end s = 1707868800000
     \<and> created_at s = 1706659200250"
    using create_trial_period_days[OF c[unfolded r] a]
    by (auto simp: z utc_zone_def msPerDay_def UTC_def LocalTime_def)
  obtain r2 db2 where c2: "create scenario_env ''app_1'' False scenario_input ''NGN'' trial_plan_db
      = (r2, db2)"
    by (cases "create scenario_env ''app_1'' False scenario_input ''NGN'' trial_plan_db")
  with scenario_trial_created obtain s2 where r2: "r2 = Inr s2" by (cases r2) auto
  have a2: "c_trial_end scenario_input = None" "c_trial_period_days scenario_input = None"
    "c_plan_id scenario_input = ''plan_1''"
    by (simp_all add: scenario_input_def)
  have p: "c_trial_period_days scenario_input = Some 14
         \<or> (c_trial_period_days scenario_input = None
             \<and> (\<exists>plan. plan_getById trial_plan_db ''app_1'' (c_plan_id scenario_input) False False
                          = Inr plan \<and> trial_period_days plan = 14))"
    using scenario_trial_created by (simp add: a2)
  have second: "status s2 = Trialing
     \<and> trial_start s2 = Some 1706659200000
     \<and> trial_end s2 = Some 1707868800000
     \<and> current_period_start s2 = 1706659200000
     \<and> current_period_end s2 = 1707868800000"
    using create_trial_period_days[OF c2[unfolded r2] a2(1) p]
    by (auto simp: z utc_zone_def msPerDay_def UTC_def LocalTime_def)
  from first second c r c2 r2 show ?thesis by blast
qed

text \<open>The claim as stated fails in a zone with daylight saving: a process in New York that
  creates the subscription at 2024-03-01T12:00:00Z ends the trial at 2024-03-15T11:00:00Z
  (1710500400000), an hour short of 14 days after the creation instant; and the row's
  \<open>created_at\<close>, read from the database's clock, is not the instant the trial starts
  at.\<close>

theorem create_trial_period_days_counterexample:
  "(case fst (create new_york_env ''app_1'' False
               (scenario_input\<lparr>c_trial_period_days := Some 14\<rparr>) ''NGN'' scenario_db) of
      Inl err \<Rightarrow> False
    | Inr s \<Rightarrow> status s = Trialing
              \<and> trial_start s = Some 1709294400000
              \<and> created_at s = 1709294400250
              \<and> trial_end s = Some 1710500400000
              \<and> trial_end s \<noteq> Some (1709294400000 + 14 * 86400000)
              \<and> trial_end s \<noteq> Some (created_at s + 14 * 86400000))"
  by code_simp

text \<open>
  C2. The claim: \<open>periodEnd(start, 'month', count)\<close> cuts the day back to the last day of
  the month reached, so that a subscription created at 2024-01-31T00:00:00Z on a monthly
  plan has its period end on 2024-02-29T00:00:00Z (1709164800000). \<open>calculatePeriodEnd\<close>
  uses \<open>setMonth\<close>, which carries the overflow into the next month: the period ends on
  2024-03-02T00:00:00Z (1709337600000). The interval arithmetic of the database, which
  \<open>activateTrialEnding\<close> uses for the same purpose, does give 2024-02-29.
\<close>

theorem period_end_overflows_month:
  "calculatePeriodEnd utc_zone 1706659200000 Month 1 = 1709337600000
   \<and> (case fst (create scenario_env ''app_1'' False scenario_input ''NGN'' scenario_db) of
         Inl err \<Rightarrow> False
       | Inr s \<Rightarrow> status s = Active
                 \<and> current_period_start s = 1706659200000
                 \<and> current_period_end s = 1709337600000)
   \<and> timestamptz_pl_interval utc_zone 1706659200000 1 0 = 1709164800000"
  by code_simp

subsection \<open>Rows found and rows written\<close>

lemma find_Some_filter: "find P xs = Some x \<Longrightarrow> \<exists>ys. filter P xs = x # ys"
  by (induction xs) (auto split: if_splits)

lemma find_None_filter: "find P xs = None \<Longrightarrow> filter P xs = []"
  by (induction xs) (auto split: if_splits)

lemma find_map_update:
  "(\<And>s. P (upd s) = P s) \<Longrightarrow>
   find P (map (\<lambda>s. if P s then upd s else s) xs) = map_option upd (find P xs)"
  by (induction xs) auto

lemma scoped_id_update [simp]:
  "scoped_id i a t (s\<lparr>updated_at := u\<rparr>) = scoped_id i a t s"
  "scoped_id i a t (s\<lparr>cancel_at_period_end := b\<rparr>) = scoped_id i a t s"
  "scoped_id i a t (s\<lparr>cancel_at := c\<rparr>) = scoped_id i a t s"
  "scoped_id i a t (s\<lparr>cancellation_reason := r\<rparr>) = scoped_id i a t s"
  by (simp_all add: scoped_id_def)

lemma update_returning_found:
  assumes "getById db a i t = Inr existing"
  shows "fst (update_returning (scoped_id i a t) upd db) = Inr (upd existing)"
proof -
  from assms have "find (scoped_id i a t) (subscriptions db) = Some existing"
    by (simp add: getById_def split: option.splits)
  from find_Some_filter[OF this]
  obtain ys where "filter (scoped_id i a t) (subscriptions db) = existing # ys" ..
  then show ?thesis
    by (simp add: update_returning_def sql_returning_def first_row_def)
qed

lemma getById_after_update:
  assumes "getById db a i t = Inr existing" and "\<And>s. scoped_id i a t (upd s) = scoped_id i a t s"
  shows "getById (snd (update_returning (scoped_id i a t) upd db)) a i t = Inr (upd existing)"
proof -
  from assms(1) have "find (scoped_id i a t) (subscriptions db) = Some existing"
    by (simp add: getById_def split: option.splits)
  then show ?thesis
    using find_map_update[of "scoped_id i a t" upd "subscriptions db", OF assms(2)]
    by (simp add: getById_def update_returning_def sql_update_def)
qed

text \<open>
  C7, as amended. Cancel with \<open>at_period_end\<close> true (or absent: it defaults to true) on a
  subscription that is not canceled leaves the status as it is and sets
  \<open>cancel_at_period_end\<close>, \<open>cancel_at\<close> (to the current period end),
  \<open>cancellation_reason\<close> (to the reason given, \<open>customer_request\<close> by default) and
  \<open>updated_at\<close> (to the database clock); a subsequent reactivate clears the first three,
  sets \<open>updated_at\<close> again and leaves the status and every other field unchanged. Both the
  subscription returned and the subscription stored (what \<open>getById\<close> then reads) are
  these.
\<close>

theorem cancel_at_period_end_then_reactivate:
  assumes found: "getById db applicationId subscriptionId testMode = Inr existing"
    and live: "status existing \<noteq> Canceled"
    and at_end: "at_period_end options \<noteq> Some False"
  shows "\<exists>s1 db1 s2 db2.
           cancel e applicationId subscriptionId testMode options db = (Inr s1, db1)
         \<and> s1 = existing\<lparr>cancel_at_period_end := True,
                         cancel_at := Some (current_period_end existing),
                         cancellation_reason :=
                           Some (case reason options of Some r \<Rightarrow> r | None \<Rightarrow> CustomerRequest),
                         updated_at := sql_now e\<rparr>
         \<and> getById db1 applicationId subscriptionId testMode = Inr s1
         \<and> reactivate e' applicationId subscriptionId testMode db1 = (Inr s2, db2)
         \<and> s2 = s1\<lparr>cancel_at_period_end := False,
                    cancel_at := None,
                    cancellation_reason := None,
                    updated_at := sql_now e'\<rparr>
         \<and> getById db2 applicationId subscriptionId testMode = Inr s2"
proof -
  define why where "why = (case reason options of Some r \<Rightarrow> r | None \<Rightarrow> CustomerRequest)"
  define upd1 where "upd1 = (\<lambda>s::Subscription. s\<lparr>cancel_at_period_end := True,
      cancel_at := Some (current_period_end existing),
      cancellation_reason := Some why, updated_at := sql_now e\<rparr>)"
  define upd2 where "upd2 = (\<lambda>s::Subscription. s\<lparr>cancel_at_period_end := False,
      cancel_at := None, cancellation_reason := None, updated_at := sql_now e'\<rparr>)"
  define db1 where "db1 = snd (update_returning (scoped_id subscriptionId applicationId testMode) upd1 db)"
  define db2 where "db2 = snd (update_returning (scoped_id subscriptionId applicationId testMode) upd2 db1)"
  have at: "(case at_period_end options of Some b \<Rightarrow> b | None \<Rightarrow> True)"
    using at_end by (cases "at_period_end options") auto
  have p1: "\<And>s. scoped_id subscriptionId applicationId testMode (upd1 s)
              = scoped_id subscriptionId applicationId testMode s"
    by (simp add: upd1_def)
  have p2: "\<And>s. scoped_id subscriptionId applicationId testMode (upd2 s)
              = scoped_id subscriptionId applicationId testMode s"
    by (simp add: upd2_def)
  have c: "cancel e applicationId subscriptionId testMode options db = (Inr (upd1 existing), db1)"
    using found live at update_returning_found[OF found, of upd1]
    by (simp add: cancel_def Let_def upd1_def why_def db1_def prod_eq_iff)
  have g1: "getById db1 applicationId subscriptionId testMode = Inr (upd1 existing)"
    unfolding db1_def by (rule getById_after_update[OF found p1])
  have st: "status (upd1 existing) \<noteq> Canceled" "cancel_at_period_end (upd1 existing)"
    using live by (simp_all add: upd1_def)
  have r: "reactivate e' applicationId subscriptionId testMode db1 = (Inr (upd2 (upd1 existing)), db2)"
    using g1 st update_returning_found[OF g1, of upd2]
    by (simp add: reactivate_def upd2_def db2_def prod_eq_iff)
  have g2: "getById db2 applicationId subscriptionId testMode = Inr (upd2 (upd1 existing))"
    unfolding db2_def by (rule getById_after_update[OF g1 p2])
  show ?thesis
    using c g1 r g2 by (simp add: upd1_def upd2_def why_def)
qed

theorem cancel_at_period_end_then_reactivate_witness:
  "\<exists>s1 db1 s2 db2.
      cancel scenario_env ''app_1'' ''sub_1'' False \<lparr>at_period_end = Some True, reason = Some Fraud\<rparr>
        (stored_db Trialing) = (Inr s1, db1)
    \<and> status s1 = Trialing \<and> cancel_at_period_end s1 \<and> cancel_at s1 = Some 1705190400000
    \<and> cancellation_reason s1 = Some Fraud
    \<and> reactivate scenario_env ''app_1'' ''sub_1'' False db1 = (Inr s2, db2)
    \<and> status s2 = Trialing \<and> \<not> cancel_at_period_end s2 \<and> cancel_at s2 = None
    \<and> cancellation_reason s2 = None
    \<and> s2 = (stored_subscription Trialing)\<lparr>updated_at := 1706659200250\<rparr>"
proof -
  have g: "getById (stored_db Trialing) ''app_1'' ''sub_1'' False = Inr (stored_subscription Trialing)"
    by (simp add: getById_def stored_db_def stored_subscription_def scoped_id_def)
  have l: "status (stored_subscription Trialing) \<noteq> Canceled"
    by (simp add: stored_subscription_def)
  have a: "at_period_end \<lparr>at_period_end = Some True, reason = Some Fraud\<rparr> \<noteq> Some False"
    by simp
  from cancel_at_period_end_then_reactivate[OF g l a, of scenario_env scenario_env]
  show ?thesis
    by (auto simp: stored_subscription_def scenario_env_def)
qed

text \<open>The claim as stated fails: cancel writes a fourth field, \<open>updated_at\<close>. On the stored
  active subscription, last written at 1704067200000, the subscription returned by cancel
  is not the old one with exactly the three fields set: its \<open>updated_at\<close> is the database
  clock 1706659200250.\<close>

theorem cancel_sets_updated_at_counterexample:
  "getById (stored_db Active) ''app_1'' ''sub_1'' False = Inr (stored_subscription Active)
   \<and> fst (cancel scenario_env ''app_1'' ''sub_1'' False \<lparr>at_period_end = Some True, reason = None\<rparr>
            (stored_db Active))
       = Inr ((stored_subscription Active)
                \<lparr>cancel_at_period_end := True,
                 cancel_at := Some (current_period_end (stored_subscription Active)),
                 cancellation_reason := Some CustomerRequest,
                 updated_at := 1706659200250\<rparr>)
   \<and> fst (cancel scenario_env ''app_1'' ''sub_1'' False \<lparr>at_period_end = Some True, reason = None\<rparr>
            (stored_db Active))
       \<noteq> Inr ((stored_subscription Active)
                \<lparr>cancel_at_period_end := True,
                 cancel_at := Some (current_period_end (stored_subscription Active)),
                 cancellation_reason := Some CustomerRequest\<rparr>)"
  by (simp add: getById_def stored_db_def stored_subscription_def scoped_id_def cancel_def
      update_returning_def sql_returning_def first_row_def scenario_env_def)


subsection \<open>activateTrialEnding\<close>

lemma sql_update_no_match:
  "\<forall>s \<in> set (subscriptions db). \<not> cond s \<Longrightarrow> sql_update cond upd db = db"
proof -
  assume a: "\<forall>s \<in> set (subscriptions db). \<not> cond s"
  then have "map (\<lambda>s. if cond s then upd s else s) (subscriptions db) = subscriptions db"
    by (intro map_idI) simp
  then show ?thesis by (simp add: sql_update_def)
qed

lemma sql_returning_no_match:
  "\<forall>s \<in> set (subscriptions db). \<not> cond s \<Longrightarrow> sql_returning cond upd db = []"
  by (simp add: sql_returning_def filter_empty_conv)

lemma activateTrialEnding_not_trialing:
  assumes "\<forall>s \<in> set (subscriptions db). sub_id s = subscriptionId \<longrightarrow> status s \<noteq> Trialing"
  shows "activateTrialEnding e subscriptionId db = (Inr None, db)"
proof -
  have n: "\<forall>s \<in> set (subscriptions db). \<not> trial_ended e subscriptionId s"
    using assms by (auto simp: trial_ended_def)
  show ?thesis
    using n sql_update_no_match[OF n] sql_returning_no_match[OF n]
    by (auto simp: activateTrialEnding_def Let_def)
qed

lemma find_unique:
  assumes "x \<in> set xs" and "P x" and "\<forall>y \<in> set xs. P y \<longrightarrow> y = x"
  shows "find P xs = Some x"
  using assms
proof (induction xs)
  case Nil
  then show ?case by simp
next
  case (Cons a xs)
  show ?case
  proof (cases "P a")
    case True
    with Cons.prems(3) have "a = x" by simp
    with True show ?thesis by simp
  next
    case False
    with Cons.prems(1,2) have "x \<in> set xs" by auto
    moreover have "\<forall>y \<in> set xs. P y \<longrightarrow> y = x" using Cons.prems(3) by simp
    ultimately have "find P xs = Some x" using Cons.IH Cons.prems(2) by blast
    with False show ?thesis by simp
  qed
qed

lemma distinct_ids_same_row:
  assumes "distinct (map sub_id xs)" and "x \<in> set xs" and "y \<in> set xs" and "sub_id x = sub_id y"
  shows "x = y"
proof -
  from assms(1) have "inj_on sub_id (set xs)" by (simp add: distinct_map)
  then show ?thesis by (rule inj_onD[OF _ assms(4) assms(2) assms(3)])
qed

text \<open>
  C8. Trial-expiry activation is idempotent. In a table whose \<open>id\<close> column is a key
  (\<open>PRIMARY KEY\<close>), once \<open>activateTrialEnding\<close> has activated a subscription, which is then
  stored with status active, a second call, at whatever time, returns \<open>null\<close> without an
  error and leaves the store as it is.
\<close>

theorem activateTrialEnding_idempotent:
  assumes pk: "distinct (map sub_id (subscriptions db))"
    and first: "activateTrialEnding e subscriptionId db = (Inr (Some s), db1)"
  shows "status s = Active
         \<and> getById db1 (application_id s) subscriptionId (test_mode s) = Inr s
         \<and> activateTrialEnding e' subscriptionId db1 = (Inr None, db1)"
proof -
  define upd where "upd = (\<lambda>r::Subscription. r\<lparr>status := Active,
      current_period_start := the (trial_end r),
      current_period_end :=
        (case the (plan_interval db r) of
           (months, days) \<Rightarrow> timestamptz_pl_interval (pg_tza e) (the (trial_end r)) months days),
      updated_at := sql_now e\<rparr>)"
  have ok: "\<not> (\<exists>r \<in> set (subscriptions db). trial_ended e subscriptionId r \<and> plan_interval db r = None)"
  proof
    assume "\<exists>r \<in> set (subscriptions db). trial_ended e subscriptionId r \<and> plan_interval db r = None"
    then have "fst (activateTrialEnding e subscriptionId db)
                 = Inl (DatabaseError ''null value in column current_period_end'')"
      by (simp add: activateTrialEnding_def)
    with first show False by simp
  qed
  have "activateTrialEnding e subscriptionId db =
          (case sql_returning (trial_ended e subscriptionId) upd db of
             [] \<Rightarrow> Inr None | r # _ \<Rightarrow> Inr (Some r),
           sql_update (trial_ended e subscriptionId) upd db)"
    unfolding activateTrialEnding_def Let_def upd_def by (simp only: ok if_False)
  with first have db1: "db1 = sql_update (trial_ended e subscriptionId) upd db"
    and ret: "(case sql_returning (trial_ended e subscriptionId) upd db of
                 [] \<Rightarrow> Inr None | r # _ \<Rightarrow> Inr (Some r))
              = (Inr (Some s) :: error + Subscription option)"
    by simp_all
  from ret obtain rest where rows: "sql_returning (trial_ended e subscriptionId) upd db = s # rest"
    by (cases "sql_returning (trial_ended e subscriptionId) upd db") auto
  then have "s \<in> set (map upd (filter (trial_ended e subscriptionId) (subscriptions db)))"
    by (simp add: sql_returning_def)
  then obtain r0 where r0: "r0 \<in> set (subscriptions db)" "trial_ended e subscriptionId r0" "s = upd r0"
    by auto
  have s_active: "status s = Active" using r0(3) by (simp add: upd_def)
  have all: "\<forall>r \<in> set (subscriptions db1). sub_id r = subscriptionId \<longrightarrow> r = s"
  proof (intro ballI impI)
    fix r assume "r \<in> set (subscriptions db1)" and i: "sub_id r = subscriptionId"
    then obtain q where q: "q \<in> set (subscriptions db)"
      "r = (if trial_ended e subscriptionId q then upd q else q)"
      by (auto simp: db1 sql_update_def)
    have u: "sub_id (upd q) = sub_id q" by (simp add: upd_def)
    have "sub_id r = sub_id q" unfolding q(2) using u by simp
    moreover have "sub_id r0 = subscriptionId" using r0(2) by (simp add: trial_ended_def)
    ultimately have "sub_id q = sub_id r0" using i by simp
    have "q = r0" by (rule distinct_ids_same_row[OF pk q(1) r0(1) \<open>sub_id q = sub_id r0\<close>])
    have "r = upd r0" unfolding q(2) \<open>q = r0\<close> using r0(2) by simp
    then show "r = s" unfolding r0(3) .
  qed
  have "s = (\<lambda>q. if trial_ended e subscriptionId q then upd q else q) r0"
    using r0 by simp
  then have "s \<in> (\<lambda>q. if trial_ended e subscriptionId q then upd q else q) ` set (subscriptions db)"
    using r0(1) by (rule image_eqI)
  then have "s \<in> set (subscriptions db1)"
    by (simp add: db1 sql_update_def)
  have found: "getById db1 (application_id s) subscriptionId (test_mode s) = Inr s"
  proof -
    have sid: "sub_id s = subscriptionId" using r0 by (simp add: upd_def trial_ended_def)
    have "find (scoped_id subscriptionId (application_id s) (test_mode s)) (subscriptions db1) = Some s"
    proof (rule find_unique)
      show "s \<in> set (subscriptions db1)" by fact
      show "scoped_id subscriptionId (application_id s) (test_mode s) s"
        using sid by (simp add: scoped_id_def)
      show "\<forall>y \<in> set (subscriptions db1).
              scoped_id subscriptionId (application_id s) (test_mode s) y \<longrightarrow> y = s"
        using all unfolding scoped_id_def by blast
    qed
    then show ?thesis by (simp add: getById_def)
  qed
  have "\<forall>r \<in> set (subscriptions db1). sub_id r = subscriptionId \<longrightarrow> status r \<noteq> Trialing"
    using all s_active by auto
  from activateTrialEnding_not_trialing[OF this] s_active found show ?thesis by simp
qed

lemma stored_trial_activates:
  "(case fst (activateTrialEnding scenario_env ''sub_1'' (stored_db Trialing)) of
      Inr (Some s) \<Rightarrow> current_period_start s = 1705190400000
                       \<and> current_period_end s = 1707868800000
    | _ \<Rightarrow> False)"
  by code_simp

theorem activateTrialEnding_idempotent_witness:
  "\<exists>s db1. activateTrialEnding scenario_env ''sub_1'' (stored_db Trialing) = (Inr (Some s), db1)
     \<and> status s = Active
     \<and> getById db1 ''app_1'' ''sub_1'' False = Inr s
     \<and> activateTrialEnding scenario_env ''sub_1'' db1 = (Inr None, db1)"
proof -
  obtain r db1 where c: "activateTrialEnding scenario_env ''sub_1'' (stored_db Trialing) = (r, db1)"
    by (cases "activateTrialEnding scenario_env ''sub_1'' (stored_db Trialing)")
  with stored_trial_activates obtain s where r: "r = Inr (Some s)"
    by (auto split: sum.splits option.splits)
  have pk: "distinct (map sub_id (subscriptions (stored_db Trialing)))"
    by (simp add: stored_db_def)
  have scope: "application_id s = ''app_1'' \<and> test_mode s = False"
    using c r
    by (auto simp: activateTrialEnding_def Let_def sql_returning_def stored_db_def
        stored_subscription_def split: if_splits list.splits)
  from activateTrialEnding_idempotent[OF pk c[unfolded r], of scenario_env] scope c r
  show ?thesis by auto
qed


subsection \<open>Failed preconditions\<close>

















subsection \<open>Scope\<close>

lemma find_filter_implied:
  "(\<And>x. P x \<Longrightarrow> Q x) \<Longrightarrow> find P (filter Q xs) = find P xs"
  by (induction xs) auto

lemma filter_filter_implied:
  "(\<And>x. P x \<Longrightarrow> Q x) \<Longrightarrow> filter P (filter Q xs) = filter P xs"
  by (induction xs) auto

lemma bex_filter_implied:
  "(\<And>x. P x \<Longrightarrow> Q x) \<Longrightarrow> (\<exists>x \<in> set (filter Q xs). P x) \<longleftrightarrow> (\<exists>x \<in> set xs. P x)"
  by auto

lemma getById_restrict:
  "getById (restrict_scope a t db) a i t = getById db a i t"
proof -
  have "find (scoped_id i a t) (filter (in_scope a t) (subscriptions db))
          = find (scoped_id i a t) (subscriptions db)"
    by (rule find_filter_implied) (simp add: scoped_id_def in_scope_def)
  then show ?thesis by (simp add: getById_def restrict_scope_def)
qed

lemma getByExternalId_restrict:
  "getByExternalId (restrict_scope a t db) a x t = getByExternalId db a x t"
proof -
  have "find (\<lambda>s. external_id s = Some x \<and> application_id s = a \<and> test_mode s = t)
             (filter (in_scope a t) (subscriptions db))
          = find (\<lambda>s. external_id s = Some x \<and> application_id s = a \<and> test_mode s = t)
              (subscriptions db)"
    by (rule find_filter_implied) (simp add: in_scope_def)
  then show ?thesis by (simp add: getByExternalId_def restrict_scope_def)
qed

lemma plan_getById_restrict:
  "plan_getById (restrict_scope a t db) a i t b = plan_getById db a i t b"
proof -
  have "find (\<lambda>p. pl_id p = i \<and> pl_application_id p = a \<and> pl_test_mode p = t
                   \<and> (b \<or> pl_status p \<noteq> PlanArchived))
             (filter (\<lambda>p. pl_application_id p = a \<and> pl_test_mode p = t) (plans db))
          = find (\<lambda>p. pl_id p = i \<and> pl_application_id p = a \<and> pl_test_mode p = t
                   \<and> (b \<or> pl_status p \<noteq> PlanArchived)) (plans db)"
    by (rule find_filter_implied) simp
  then show ?thesis by (simp add: plan_getById_def restrict_scope_def)
qed

lemma customer_getById_restrict:
  "customer_getById (restrict_scope a t db) a i t b = customer_getById db a i t b"
proof -
  have "find (\<lambda>c. cust_id c = i \<and> cust_application_id c = a \<and> cust_test_mode c = t
                   \<and> (b \<or> deleted_at c = None))
             (filter (\<lambda>c. cust_application_id c = a \<and> cust_test_mode c = t) (customers db))
          = find (\<lambda>c. cust_id c = i \<and> cust_application_id c = a \<and> cust_test_mode c = t
                   \<and> (b \<or> deleted_at c = None)) (customers db)"
    by (rule find_filter_implied) simp
  then show ?thesis by (simp add: customer_getById_def restrict_scope_def)
qed

lemma getCustomerSubscriptions_restrict:
  "getCustomerSubscriptions (restrict_scope a t db) a c t st = getCustomerSubscriptions db a c t st"
proof -
  have "filter (\<lambda>s. application_id s = a \<and> customer_id s = c \<and> test_mode s = t
                     \<and> (st \<noteq> None \<longrightarrow> status s = the st))
          (filter (in_scope a t) (subscriptions db))
        = filter (\<lambda>s. application_id s = a \<and> customer_id s = c \<and> test_mode s = t
                     \<and> (st \<noteq> None \<longrightarrow> status s = the st)) (subscriptions db)"
    by (rule filter_filter_implied) (simp add: in_scope_def)
  then show ?thesis by (simp add: getCustomerSubscriptions_def restrict_scope_def)
qed

lemma restrict_scope_idem:
  "restrict_scope a t (restrict_scope a t db) = restrict_scope a t db"
  by (simp add: restrict_scope_def)

lemma scoped_effect_error:
  "scoped_effect a t db (Inl err, db) (Inl err, restrict_scope a t db)"
  by (simp add: scoped_effect_def)

lemma map_update_outside:
  assumes "\<And>s. in_scope a t (upd s) = in_scope a t s"
  shows "filter (\<lambda>s. \<not> in_scope a t s) (map (\<lambda>s. if scoped_id i a t s then upd s else s) xs)
           = filter (\<lambda>s. \<not> in_scope a t s) xs"
proof (induction xs)
  case Nil
  show ?case by simp
next
  case (Cons x xs)
  have "scoped_id i a t x \<Longrightarrow> in_scope a t x" by (simp add: scoped_id_def in_scope_def)
  with Cons assms show ?case by auto
qed

lemma map_update_inside:
  assumes "\<And>s. in_scope a t (upd s) = in_scope a t s"
  shows "filter (in_scope a t) (map (\<lambda>s. if scoped_id i a t s then upd s else s) xs)
           = map (\<lambda>s. if scoped_id i a t s then upd s else s) (filter (in_scope a t) xs)"
proof (induction xs)
  case Nil
  show ?case by simp
next
  case (Cons x xs)
  have "scoped_id i a t x \<Longrightarrow> in_scope a t x" by (simp add: scoped_id_def in_scope_def)
  with Cons assms show ?case by auto
qed

lemma scoped_effect_update:
  assumes "\<And>s. in_scope a t (upd s) = in_scope a t s"
  shows "scoped_effect a t db (update_returning (scoped_id i a t) upd db)
           (update_returning (scoped_id i a t) upd (restrict_scope a t db))"
proof -
  have f: "filter (\<lambda>x. in_scope a t x \<and> scoped_id i a t x) (subscriptions db)
             = filter (scoped_id i a t) (subscriptions db)"
    by (rule filter_cong) (auto simp: scoped_id_def in_scope_def)
  show ?thesis
    using map_update_outside[OF assms, of i "subscriptions db"]
      map_update_inside[OF assms, of i "subscriptions db"]
    by (simp add: scoped_effect_def update_returning_def sql_returning_def sql_update_def
        restrict_scope_def outside_scope_def f)
qed

lemma scoped_effect_insert:
  assumes "in_scope a t row"
  shows "scoped_effect a t db (Inr row, db\<lparr>subscriptions := subscriptions db @ [row]\<rparr>)
           (Inr row, (restrict_scope a t db)
              \<lparr>subscriptions := subscriptions (restrict_scope a t db) @ [row]\<rparr>)"
  using assms by (simp add: scoped_effect_def restrict_scope_def outside_scope_def)

lemma duplicate_external_id_restrict:
  "(\<exists>s \<in> set (subscriptions (restrict_scope a t db)).
       application_id s = a \<and> external_id s = x \<and> test_mode s = t)
   \<longleftrightarrow> (\<exists>s \<in> set (subscriptions db).
       application_id s = a \<and> external_id s = x \<and> test_mode s = t)"
  "(\<exists>s \<in> set (subscriptions (restrict_scope a t db)).
       application_id s = a \<and> external_id s = x \<and> test_mode s = t \<and> sub_id s \<noteq> i)
   \<longleftrightarrow> (\<exists>s \<in> set (subscriptions db).
       application_id s = a \<and> external_id s = x \<and> test_mode s = t \<and> sub_id s \<noteq> i)"
  by (auto simp: restrict_scope_def in_scope_def)

lemma new_subscription_in_scope:
  "in_scope a t (new_subscription e a t input plan price cur w)"
  by (simp add: new_subscription_def in_scope_def Let_def split: prod.splits)

lemma create_scoped: "scoped_operation a t (create e a t input dc)"
  unfolding scoped_operation_def
proof
  fix db
  show "scoped_effect a t db (create e a t input dc db)
          (create e a t input dc (restrict_scope a t db))"
    unfolding create_def customer_getById_restrict plan_getById_restrict
      duplicate_external_id_restrict
    by (auto simp: Let_def scoped_effect_error new_subscription_in_scope
        intro!: scoped_effect_insert split: sum.splits option.splits)
qed

lemma update_scoped: "scoped_operation a t (update e a i t input)"
  unfolding scoped_operation_def
proof
  fix db
  show "scoped_effect a t db (update e a i t input db)
          (update e a i t input (restrict_scope a t db))"
    unfolding update_def getById_restrict duplicate_external_id_restrict
    by (auto simp: Let_def scoped_effect_error in_scope_def
        intro!: scoped_effect_update split: sum.splits option.splits)
qed

lemma changePlan_scoped: "scoped_operation a t (changePlan e a i t newPlanId options)"
  unfolding scoped_operation_def
proof
  fix db
  show "scoped_effect a t db (changePlan e a i t newPlanId options db)
          (changePlan e a i t newPlanId options (restrict_scope a t db))"
    unfolding changePlan_def getById_restrict plan_getById_restrict
    by (auto simp: Let_def scoped_effect_error in_scope_def
        intro!: scoped_effect_update split: sum.splits option.splits)
qed

lemma cancel_scoped: "scoped_operation a t (cancel e a i t options)"
  unfolding scoped_operation_def
proof
  fix db
  show "scoped_effect a t db (cancel e a i t options db)
          (cancel e a i t options (restrict_scope a t db))"
    unfolding cancel_def getById_restrict
    by (auto simp: Let_def scoped_effect_error in_scope_def
        intro!: scoped_effect_update split: sum.splits)
qed

lemma reactivate_scoped: "scoped_operation a t (reactivate e a i t)"
  unfolding scoped_operation_def
proof
  fix db
  show "scoped_effect a t db (reactivate e a i t db)
          (reactivate e a i t (restrict_scope a t db))"
    unfolding reactivate_def getById_restrict
    by (auto simp: scoped_effect_error in_scope_def
        intro!: scoped_effect_update split: sum.splits)
qed

lemma pause_scoped: "scoped_operation a t (pause e a i t options)"
  unfolding scoped_operation_def
proof
  fix db
  show "scoped_effect a t db (pause e a i t options db)
          (pause e a i t options (restrict_scope a t db))"
    unfolding pause_def getById_restrict
    by (auto simp: Let_def scoped_effect_error in_scope_def
        intro!: scoped_effect_update split: sum.splits)
qed

lemma resume_scoped: "scoped_operation a t (resume e a i t)"
  unfolding scoped_operation_def
proof
  fix db
  show "scoped_effect a t db (resume e a i t db)
          (resume e a i t (restrict_scope a t db))"
    unfolding resume_def getById_restrict plan_getById_restrict
    by (auto simp: Let_def scoped_effect_error in_scope_def
        intro!: scoped_effect_update split: sum.splits list.splits)
qed

lemma list_subscriptions_in_scope:
  "\<forall>s \<in> set (data (list_subscriptions params db)).
      in_scope (l_application_id params) (l_test_mode params) s"
proof
  fix s assume "s \<in> set (data (list_subscriptions params db))"
  then have "s \<in> set (order_by_created_at_desc
                        (filter (list_condition params db) (subscriptions db)))"
    by (auto simp: list_subscriptions_def Let_def dest!: in_set_takeD)
  then have "list_condition params db s"
    by (simp add: order_by_created_at_desc_def)
  then show "in_scope (l_application_id params) (l_test_mode params) s"
    by (simp add: list_condition_def in_scope_def)
qed

lemma trial_ended_guard:
  "trial_ended e i s \<longleftrightarrow> guard_of_activation (sql_now e) i s"
  by (cases "trial_end s") (simp_all add: trial_ended_def guard_of_activation_def)

lemma trial_ended_move [simp]:
  "trial_ended e i (move_scope a t s) = trial_ended e i s"
  by (simp add: trial_ended_def move_scope_def)

lemma plan_interval_rescope [simp]:
  "plan_interval (rescope a t db) (move_scope a t s) = plan_interval db s"
  by (cases "items s") (simp_all add: plan_interval_def rescope_def move_scope_def)

lemma activateTrialEnding_fails:
  assumes "\<exists>s \<in> set (subscriptions db). trial_ended e i s \<and> plan_interval db s = None"
  shows "activateTrialEnding e i db
           = (Inl (DatabaseError ''null value in column current_period_end''), db)"
  unfolding activateTrialEnding_def by (simp only: assms if_True)

lemma activateTrialEnding_runs:
  assumes "\<not> (\<exists>s \<in> set (subscriptions db). trial_ended e i s \<and> plan_interval db s = None)"
  shows "activateTrialEnding e i db
           = (case sql_returning (trial_ended e i)
                     (\<lambda>s. s\<lparr>status := Active,
                             current_period_start := the (trial_end s),
                             current_period_end :=
                               (case the (plan_interval db s) of
                                  (months, days) \<Rightarrow>
                                    timestamptz_pl_interval (pg_tza e) (the (trial_end s))
                                      months days),
                             updated_at := sql_now e\<rparr>) db of
                [] \<Rightarrow> Inr None
              | r # _ \<Rightarrow> Inr (Some r),
              sql_update (trial_ended e i)
                (\<lambda>s. s\<lparr>status := Active,
                        current_period_start := the (trial_end s),
                        current_period_end :=
                          (case the (plan_interval db s) of
                             (months, days) \<Rightarrow>
                               timestamptz_pl_interval (pg_tza e) (the (trial_end s))
                                 months days),
                        updated_at := sql_now e\<rparr>) db)"
  unfolding activateTrialEnding_def Let_def by (simp only: assms if_False)

lemma activateTrialEnding_rescope:
  "activateTrialEnding e i (rescope a t db)
     = (map_sum id (map_option (move_scope a t)) (fst (activateTrialEnding e i db)),
        rescope a t (snd (activateTrialEnding e i db)))"
proof -
  define upd where "upd = (\<lambda>d (s::Subscription). s\<lparr>status := Active,
      current_period_start := the (trial_end s),
      current_period_end :=
        (case the (plan_interval d s) of
           (months, days) \<Rightarrow> timestamptz_pl_interval (pg_tza e) (the (trial_end s)) months days),
      updated_at := sql_now e\<rparr>)"
  have rows: "subscriptions (rescope a t db) = map (move_scope a t) (subscriptions db)"
    by (simp add: rescope_def)
  have fails: "(\<exists>s \<in> set (subscriptions (rescope a t db)).
                  trial_ended e i s \<and> plan_interval (rescope a t db) s = None)
               \<longleftrightarrow> (\<exists>s \<in> set (subscriptions db). trial_ended e i s \<and> plan_interval db s = None)"
    unfolding rows by simp
  have moved: "upd (rescope a t db) (move_scope a t s) = move_scope a t (upd db s)" for s
    by (simp add: upd_def) (simp add: move_scope_def)
  have ret: "sql_returning (trial_ended e i) (upd (rescope a t db)) (rescope a t db)
               = map (move_scope a t) (sql_returning (trial_ended e i) (upd db) db)"
    by (simp add: sql_returning_def rows filter_map comp_def moved)
  have m: "map (\<lambda>s. if trial_ended e i s then upd (rescope a t db) s else s)
               (map (move_scope a t) xs)
             = map (move_scope a t) (map (\<lambda>s. if trial_ended e i s then upd db s else s) xs)"
    for xs
    by (induction xs) (simp_all add: moved)
  have upd_db: "sql_update (trial_ended e i) (upd (rescope a t db)) (rescope a t db)
               = rescope a t (sql_update (trial_ended e i) (upd db) db)"
    unfolding sql_update_def rows m by (simp add: rescope_def)
  have run: "activateTrialEnding e i d
               = (case sql_returning (trial_ended e i) (upd d) d of
                    [] \<Rightarrow> Inr None
                  | r # _ \<Rightarrow> Inr (Some r),
                  sql_update (trial_ended e i) (upd d) d)"
    if "\<not> (\<exists>s \<in> set (subscriptions d). trial_ended e i s \<and> plan_interval d s = None)" for d
    using activateTrialEnding_runs[OF that] by (simp add: upd_def)
  show ?thesis
  proof (cases "\<exists>s \<in> set (subscriptions db). trial_ended e i s \<and> plan_interval db s = None")
    case True
    from True fails
    have "\<exists>s \<in> set (subscriptions (rescope a t db)).
            trial_ended e i s \<and> plan_interval (rescope a t db) s = None" by simp
    from activateTrialEnding_fails[OF this] activateTrialEnding_fails[OF True]
    show ?thesis by simp
  next
    case False
    from False fails
    have "\<not> (\<exists>s \<in> set (subscriptions (rescope a t db)).
            trial_ended e i s \<and> plan_interval (rescope a t db) s = None)" by simp
    from run[OF this] run[OF False]
    show ?thesis
      by (cases "sql_returning (trial_ended e i) (upd db) db") (simp_all add: ret upd_db)
  qed
qed

lemma activateTrialEnding_guarded:
  assumes "\<not> isl (fst (activateTrialEnding e i db))"
  shows "list_all2
           (\<lambda>old new. if guard_of_activation (sql_now e) i old
                       then status new = Active
                            \<and> current_period_start new = the (trial_end old)
                            \<and> sub_id new = sub_id old
                            \<and> application_id new = application_id old
                            \<and> test_mode new = test_mode old
                       else new = old)
           (subscriptions db) (subscriptions (snd (activateTrialEnding e i db)))"
proof -
  have "\<not> (\<exists>s \<in> set (subscriptions db). trial_ended e i s \<and> plan_interval db s = None)"
  proof
    assume "\<exists>s \<in> set (subscriptions db). trial_ended e i s \<and> plan_interval db s = None"
    from activateTrialEnding_fails[OF this] assms show False by simp
  qed
  from activateTrialEnding_runs[OF this] show ?thesis
    by (simp add: sql_update_def list_all2_map2 trial_ended_guard[symmetric] list_all2_same)
qed

text \<open>
  C10, as amended. \<open>activateTrialEnding\<close> selects and updates by subscription id alone:
  handing all subscriptions to another application and mode changes nothing in what it
  does, and when it does not fail it activates exactly the rows that have the id, are
  trialing and whose trial has ended, whatever their application and mode, and leaves
  every other row as it is. The operations create, update, changePlan, cancel,
  reactivate, pause and resume and the reads getById, getByExternalId and
  getCustomerSubscriptions read and write only rows of the caller's application and mode;
  list returns only such rows (and writes nothing).
\<close>

theorem only_activateTrialEnding_ignores_scope:
  "activateTrialEnding e i (rescope a' t' db)
     = (map_sum id (map_option (move_scope a' t')) (fst (activateTrialEnding e i db)),
        rescope a' t' (snd (activateTrialEnding e i db)))
   \<and> (\<not> isl (fst (activateTrialEnding e i db)) \<longrightarrow>
        list_all2
          (\<lambda>old new. if guard_of_activation (sql_now e) i old
                      then status new = Active
                           \<and> current_period_start new = the (trial_end old)
                           \<and> sub_id new = sub_id old
                           \<and> application_id new = application_id old
                           \<and> test_mode new = test_mode old
                      else new = old)
          (subscriptions db) (subscriptions (snd (activateTrialEnding e i db))))
   \<and> scoped_operation a t (create e a t cin dc)
   \<and> scoped_operation a t (update e a i t uin)
   \<and> scoped_operation a t (changePlan e a i t newPlanId chopts)
   \<and> scoped_operation a t (cancel e a i t caopts)
   \<and> scoped_operation a t (reactivate e a i t)
   \<and> scoped_operation a t (pause e a i t popts)
   \<and> scoped_operation a t (resume e a i t)
   \<and> scoped_query a t (\<lambda>d. getById d a i t)
   \<and> scoped_query a t (\<lambda>d. getByExternalId d a x t)
   \<and> scoped_query a t (\<lambda>d. getCustomerSubscriptions d a c t st)
   \<and> (\<forall>s \<in> set (data (list_subscriptions params db)).
         in_scope (l_application_id params) (l_test_mode params) s)"
proof (intro conjI impI)
  show "activateTrialEnding e i (rescope a' t' db)
     = (map_sum id (map_option (move_scope a' t')) (fst (activateTrialEnding e i db)),
        rescope a' t' (snd (activateTrialEnding e i db)))"
    by (rule activateTrialEnding_rescope)
next
  assume "\<not> isl (fst (activateTrialEnding e i db))"
  then show "list_all2
          (\<lambda>old new. if guard_of_activation (sql_now e) i old
                      then status new = Active
                           \<and> current_period_start new = the (trial_end old)
                           \<and> sub_id new = sub_id old
                           \<and> application_id new = application_id old
                           \<and> test_mode new = test_mode old
                      else new = old)
          (subscriptions db) (subscriptions (snd (activateTrialEnding e i db)))"
    by (rule activateTrialEnding_guarded)
next
  show "scoped_operation a t (create e a t cin dc)" by (rule create_scoped)
  show "scoped_operation a t (update e a i t uin)" by (rule update_scoped)
  show "scoped_operation a t (changePlan e a i t newPlanId chopts)" by (rule changePlan_scoped)
  show "scoped_operation a t (cancel e a i t caopts)" by (rule cancel_scoped)
  show "scoped_operation a t (reactivate e a i t)" by (rule reactivate_scoped)
  show "scoped_operation a t (pause e a i t popts)" by (rule pause_scoped)
  show "scoped_operation a t (resume e a i t)" by (rule resume_scoped)
  show "scoped_query a t (\<lambda>d. getById d a i t)"
    by (simp add: scoped_query_def getById_restrict)
  show "scoped_query a t (\<lambda>d. getByExternalId d a x t)"
    by (simp add: scoped_query_def getByExternalId_restrict)
  show "scoped_query a t (\<lambda>d. getCustomerSubscriptions d a c t st)"
    by (simp add: scoped_query_def getCustomerSubscriptions_restrict)
  show "\<forall>s \<in> set (data (list_subscriptions params db)).
         in_scope (l_application_id params) (l_test_mode params) s"
    by (rule list_subscriptions_in_scope)
qed

lemma two_tenant_evaluation:
  "(case fst (activateTrialEnding scenario_env ''sub_2'' two_tenant_db) of
      Inr (Some s) \<Rightarrow> application_id s = ''app_2'' \<and> status s = Active
    | _ \<Rightarrow> False)
   \<and> getById two_tenant_db ''app_2'' ''sub_2'' False = Inr other_tenant_subscription
   \<and> outside_scope ''app_1'' False two_tenant_db = [other_tenant_subscription]
   \<and> \<not> isl (fst (cancel scenario_env ''app_1'' ''sub_1'' False
                    \<lparr>at_period_end = None, reason = None\<rparr> two_tenant_db))"
  by code_simp

theorem only_activateTrialEnding_ignores_scope_witness:
  "(case fst (activateTrialEnding scenario_env ''sub_2'' two_tenant_db) of
      Inr (Some s) \<Rightarrow> application_id s = ''app_2'' \<and> status s = Active
    | _ \<Rightarrow> False)
   \<and> activateTrialEnding scenario_env ''sub_2'' (rescope ''app_1'' True two_tenant_db)
       = (map_sum id (map_option (move_scope ''app_1'' True))
            (fst (activateTrialEnding scenario_env ''sub_2'' two_tenant_db)),
          rescope ''app_1'' True (snd (activateTrialEnding scenario_env ''sub_2'' two_tenant_db)))
   \<and> getById (restrict_scope ''app_2'' False two_tenant_db) ''app_2'' ''sub_2'' False
       = Inr other_tenant_subscription
   \<and> \<not> isl (fst (cancel scenario_env ''app_1'' ''sub_1'' False
                    \<lparr>at_period_end = None, reason = None\<rparr>
                    (restrict_scope ''app_1'' False two_tenant_db)))
   \<and> outside_scope ''app_1'' False
        (snd (cancel scenario_env ''app_1'' ''sub_1'' False
                \<lparr>at_period_end = None, reason = None\<rparr> two_tenant_db))
       = [other_tenant_subscription]"
proof -
  note at = only_activateTrialEnding_ignores_scope[where e=scenario_env and i="''sub_2''"
      and a'="''app_1''" and t'=True and db=two_tenant_db and a="''app_2''" and t=False
      and cin=scenario_input and dc="''NGN''"
      and uin="\<lparr>u_external_id = None, u_quantity = None, u_metadata = None\<rparr>"
      and newPlanId="''plan_1''" and chopts="\<lparr>prorate = None, immediate = None\<rparr>"
      and caopts="\<lparr>at_period_end = None, reason = None\<rparr>"
      and popts="\<lparr>resume_at = None\<rparr>" and x="''x''" and c="''cus_1''" and st=None
      and params=cursor_params]
  note at1 = only_activateTrialEnding_ignores_scope[where e=scenario_env and i="''sub_1''"
      and a'="''app_1''" and t'=True and db=two_tenant_db and a="''app_1''" and t=False
      and cin=scenario_input and dc="''NGN''"
      and uin="\<lparr>u_external_id = None, u_quantity = None, u_metadata = None\<rparr>"
      and newPlanId="''plan_1''" and chopts="\<lparr>prorate = None, immediate = None\<rparr>"
      and caopts="\<lparr>at_period_end = None, reason = None\<rparr>"
      and popts="\<lparr>resume_at = None\<rparr>" and x="''x''" and c="''cus_1''" and st=None
      and params=cursor_params]
  have blind: "activateTrialEnding scenario_env ''sub_2'' (rescope ''app_1'' True two_tenant_db)
       = (map_sum id (map_option (move_scope ''app_1'' True))
            (fst (activateTrialEnding scenario_env ''sub_2'' two_tenant_db)),
          rescope ''app_1'' True (snd (activateTrialEnding scenario_env ''sub_2'' two_tenant_db)))"
    using at by (rule conjunct1)
  have q: "scoped_query ''app_2'' False (\<lambda>d. getById d ''app_2'' ''sub_2'' False)"
    using at by simp
  have g: "getById (restrict_scope ''app_2'' False two_tenant_db) ''app_2'' ''sub_2'' False
       = Inr other_tenant_subscription"
    using q two_tenant_evaluation unfolding scoped_query_def by metis
  have "scoped_operation ''app_1'' False (cancel scenario_env ''app_1'' ''sub_1'' False
          \<lparr>at_period_end = None, reason = None\<rparr>)"
    using at1 by simp
  then have eff: "scoped_effect ''app_1'' False two_tenant_db
       (cancel scenario_env ''app_1'' ''sub_1'' False
          \<lparr>at_period_end = None, reason = None\<rparr> two_tenant_db)
       (cancel scenario_env ''app_1'' ''sub_1'' False
          \<lparr>at_period_end = None, reason = None\<rparr> (restrict_scope ''app_1'' False two_tenant_db))"
    unfolding scoped_operation_def by (rule spec)
  have c1: "\<not> isl (fst (cancel scenario_env ''app_1'' ''sub_1'' False
                    \<lparr>at_period_end = None, reason = None\<rparr>
                    (restrict_scope ''app_1'' False two_tenant_db)))"
    using eff two_tenant_evaluation by (simp add: scoped_effect_def)
  have c2: "outside_scope ''app_1'' False
        (snd (cancel scenario_env ''app_1'' ''sub_1'' False
                \<lparr>at_period_end = None, reason = None\<rparr> two_tenant_db))
       = [other_tenant_subscription]"
    using eff two_tenant_evaluation by (simp add: scoped_effect_def)
  from two_tenant_evaluation blind g c1 c2 show ?thesis by (intro conjI) simp_all
qed

text \<open>The claim as stated fails for list: its cursor
  \<open>created_at < (SELECT created_at FROM subscriptions WHERE id = $n)\<close> reads the row named
  by \<open>starting_after\<close> by id alone. With the subscription of another tenant as cursor, the
  listing of \<open>app_1\<close> is not the one it gets on its own part of the store.\<close>

theorem list_cursor_reads_other_scope_counterexample:
  "data (list_subscriptions cursor_params two_tenant_db) = [stored_subscription Active]
   \<and> data (list_subscriptions cursor_params (restrict_scope ''app_1'' False two_tenant_db)) = []
   \<and> list_subscriptions cursor_params two_tenant_db
       \<noteq> list_subscriptions cursor_params (restrict_scope ''app_1'' False two_tenant_db)"
proof -
  have a: "data (list_subscriptions cursor_params two_tenant_db) = [stored_subscription Active]"
    by code_simp
  have b: "data (list_subscriptions cursor_params (restrict_scope ''app_1'' False two_tenant_db))
             = []"
    by code_simp
  from a b show ?thesis by auto
qed
end
